theory Spec2Isabelle
  imports Complex_Main
begin

section \<open>Shared value types\<close>

text \<open>
  A 32-byte digest as the backend handles it.  \<open>ethers.ZeroHash\<close> is the only digest the
  code compares against; every other digest is the output of \<open>ethers.keccak256\<close>, which is
  not computed here: functions that hash take the digest of their payload as an argument.
\<close>

datatype bytes32 = ZeroHash | Keccak256 nat

text \<open>
  Values that reach the backend through \<open>JSON.parse\<close> or a request body.  Numbers are the
  integers (request ids, counters); arrays and objects are opaque and never strictly equal
  to a primitive.
\<close>

datatype jsval = JUndefined | JNull | JBool bool | JNum int | JStr string | JObject

fun truthy :: "jsval \<Rightarrow> bool" where
  "truthy JUndefined = False"
| "truthy JNull = False"
| "truthy (JBool b) = b"
| "truthy (JNum n) = (n \<noteq> 0)"
| "truthy (JStr s) = (s \<noteq> [])"
| "truthy JObject = True"

fun strict_eq :: "jsval \<Rightarrow> jsval \<Rightarrow> bool" where
  "strict_eq JUndefined JUndefined = True"
| "strict_eq JNull JNull = True"
| "strict_eq (JBool a) (JBool b) = (a = b)"
| "strict_eq (JNum a) (JNum b) = (a = b)"
| "strict_eq (JStr a) (JStr b) = (a = b)"
| "strict_eq _ _ = False"

section \<open>LLM consensus panel (runConsensus)\<close>

text \<open>
  The verdict a node returns, after \<open>JSON.parse\<close>.  \<open>approved\<close> is the truthiness of the
  field; the numeric fields are taken as integers.
\<close>

record decision =
  approved :: bool
  recommendedAid :: nat
  fulfillerType :: nat
  estimatedCostUSD :: int
  confidence :: int

text \<open>What \<open>queryNode\<close> resolves to: \<open>decision\<close> is \<open>None\<close> for a node that failed.\<close>

record node_result =
  nodeId :: string
  model :: string
  decision :: "decision option"
  latency :: nat

datatype consensus_reason =
    InsufficientResponses
  | ApprovedBy nat nat int
  | RejectedOnly nat nat

text \<open>
  The object \<open>runConsensus\<close> returns.  The four aggregated fields are absent (\<open>None\<close>) from
  the object of the early return.
\<close>

record consensus =
  approved :: bool
  reason :: consensus_reason
  nodeCount :: nat
  validCount :: nat
  approvalCount :: nat
  recommendedAid :: "nat option"
  fulfillerType :: "nat option"
  estimatedCostUSD :: "int option"
  avgConfidence :: "int option"
  results :: "node_result list"
  consensusHash :: bytes32

datatype js_error = TypeError

text \<open>
  The vote objects \<open>aidVotes\<close> and \<open>fulfillerVotes\<close>: keys are array indices, which
  \<open>Object.entries\<close> lists in ascending numeric order.
\<close>

fun add_vote :: "nat \<Rightarrow> (nat \<times> nat) list \<Rightarrow> (nat \<times> nat) list" where
  "add_vote k [] = [(k, 1)]"
| "add_vote k ((k', c) # kvs) =
     (if k = k' then (k', c + 1) # kvs
      else if k < k' then (k, 1) # (k', c) # kvs
      else (k', c) # add_vote k kvs)"

definition count_votes :: "nat list \<Rightarrow> (nat \<times> nat) list" where
  "count_votes ks = foldl (\<lambda>votes k. add_vote k votes) [] ks"

text \<open>
  \<open>parseInt(Object.entries(votes).sort((a, b) => b[1] - a[1])[0][0])\<close>: a stable sort by
  descending count; reading entry 0 of an empty list throws.
\<close>

definition majority_vote :: "nat list \<Rightarrow> js_error + nat" where
  "majority_vote ks =
     (case sort_key (\<lambda>(k, c). - int c) (count_votes ks) of
        [] \<Rightarrow> Inl TypeError
      | (k, c) # _ \<Rightarrow> Inr k)"

text \<open>\<open>costs[Math.floor(costs.length / 2)]\<close> on the ascending costs; \<open>undefined\<close> is \<open>None\<close>.\<close>

definition median_cost :: "int list \<Rightarrow> int option" where
  "median_cost cs =
     (let costs = sort cs; i = length costs div 2
      in if i < length costs then Some (costs ! i) else None)"

text \<open>\<open>Math.round(sum / n)\<close> for an integer sum and \<open>n > 0\<close>: halves round upwards.\<close>

definition round_div :: "int \<Rightarrow> nat \<Rightarrow> int" where
  "round_div s n = (2 * s + int n) div (2 * int n)"

definition validResults :: "node_result list \<Rightarrow> node_result list" where
  "validResults rs = filter (\<lambda>r. decision r \<noteq> None) rs"

definition approvalVotes :: "node_result list \<Rightarrow> node_result list" where
  "approvalVotes rs =
     filter (\<lambda>r. case decision r of None \<Rightarrow> False | Some d \<Rightarrow> decision.approved d)
       (validResults rs)"

text \<open>The verdicts of a list of valid results (\<open>r.decision\<close> for each \<open>r\<close>).\<close>

definition decisions :: "node_result list \<Rightarrow> decision list" where
  "decisions rs = List.map_filter decision rs"

definition runConsensus :: "bytes32 \<Rightarrow> node_result list \<Rightarrow> js_error + consensus" where
  "runConsensus transcriptHash rs =
     (let valid = validResults rs in
      if length valid < 3 then
        Inr \<lparr> approved = False, reason = InsufficientResponses,
              nodeCount = length rs, validCount = length valid, approvalCount = 0,
              recommendedAid = None, fulfillerType = None, estimatedCostUSD = None,
              avgConfidence = None, results = rs, consensusHash = ZeroHash \<rparr>
      else
        let votes = decisions (approvalVotes rs);
            approvalCount = length votes;
            totalValid = length valid;
            approved = (approvalCount * 3 > totalValid * 2)
        in if approved \<and> length votes > 0 then
             (case majority_vote (map decision.recommendedAid votes) of
                Inl e \<Rightarrow> Inl e
              | Inr aid \<Rightarrow>
                 (case majority_vote (map decision.fulfillerType votes) of
                    Inl e \<Rightarrow> Inl e
                  | Inr ft \<Rightarrow>
                     (let conf = round_div (sum_list (map decision.confidence votes)) (length votes)
                      in Inr \<lparr> approved = approved,
                               reason = ApprovedBy approvalCount totalValid conf,
                               nodeCount = length rs, validCount = totalValid,
                               approvalCount = approvalCount,
                               recommendedAid = Some aid, fulfillerType = Some ft,
                               estimatedCostUSD = median_cost (map decision.estimatedCostUSD votes),
                               avgConfidence = Some conf,
                               results = rs, consensusHash = transcriptHash \<rparr>)))
           else
             Inr \<lparr> approved = approved,
                   reason = (if approved then ApprovedBy approvalCount totalValid 0
                             else RejectedOnly approvalCount totalValid),
                   nodeCount = length rs, validCount = totalValid,
                   approvalCount = approvalCount,
                   recommendedAid = Some 0, fulfillerType = Some 0,
                   estimatedCostUSD = Some 0, avgConfidence = Some 0,
                   results = rs, consensusHash = transcriptHash \<rparr>)"

text \<open>Projections of the result, for statements about a concrete panel.\<close>

definition approved_of :: "js_error + consensus \<Rightarrow> bool" where
  "approved_of r = (case r of Inl e \<Rightarrow> False | Inr c \<Rightarrow> consensus.approved c)"

definition cost_of :: "js_error + consensus \<Rightarrow> int option" where
  "cost_of r = (case r of Inl e \<Rightarrow> None | Inr c \<Rightarrow> consensus.estimatedCostUSD c)"

text \<open>
  The two readings of "median" for a list of even length, each written from its wording:
  the lower median is the smaller of the two middle values of the sorted list, the upper
  median the larger; for an odd length both are the middle value.
\<close>

definition lower_median :: "int list \<Rightarrow> int option" where
  "lower_median cs =
     (let s = sort cs; n = length s
      in if n = 0 then None
         else if even n then Some (min (s ! (n div 2 - 1)) (s ! (n div 2)))
         else Some (s ! (n div 2)))"

definition upper_median :: "int list \<Rightarrow> int option" where
  "upper_median cs =
     (let s = sort cs; n = length s
      in if n = 0 then None
         else if even n then Some (max (s ! (n div 2 - 1)) (s ! (n div 2)))
         else Some (s ! (n div 2)))"

text \<open>Sample panels.\<close>

definition panel_node :: "bool \<Rightarrow> nat \<Rightarrow> int \<Rightarrow> node_result" where
  "panel_node a aid c =
     \<lparr> nodeId = ''node'', model = ''model'',
       decision = Some \<lparr> decision.approved = a, decision.recommendedAid = aid,
                         decision.fulfillerType = 0, decision.estimatedCostUSD = c,
                         confidence = 90 \<rparr>,
       latency = 700 \<rparr>"

definition failed_node :: node_result where
  "failed_node = \<lparr> nodeId = ''node'', model = ''model'', decision = None, latency = 30000 \<rparr>"

definition panel_even :: "node_result list" where
  "panel_even =
     [panel_node True 0 100, panel_node True 0 400, panel_node True 0 200, panel_node True 0 300]"

definition panel_two_valid :: "node_result list" where
  "panel_two_valid =
     [panel_node True 0 100, panel_node True 0 400, failed_node, failed_node, failed_node]"

definition panel_one_failed :: "node_result list" where
  "panel_one_failed =
     [panel_node True 0 120, panel_node True 0 150, panel_node True 0 200,
      panel_node False 0 0, failed_node]"


section \<open>Great-circle distance (haversineDistance)\<close>

text \<open>
  JavaScript numbers are modelled as real numbers: rounding is not modelled, and \<open>NaN\<close> is
  \<open>None\<close>.  \<open>Math.sqrt\<close> of a negative number is \<open>NaN\<close>, so the distance is \<open>None\<close> when
  \<open>a\<close> leaves the interval from 0 to 1.
\<close>

definition atan2 :: "real \<Rightarrow> real \<Rightarrow> real" where
  "atan2 y x =
     (if 0 < x then arctan (y / x)
      else if x < 0 \<and> 0 \<le> y then arctan (y / x) + pi
      else if x < 0 \<and> y < 0 then arctan (y / x) - pi
      else if 0 < y then pi / 2
      else if y < 0 then - (pi / 2)
      else 0)"

definition haversine_a :: "real \<Rightarrow> real \<Rightarrow> real \<Rightarrow> real \<Rightarrow> real" where
  "haversine_a lat1 lng1 lat2 lng2 =
     (let dLat = ((lat2 - lat1) * pi) / 180;
          dLng = ((lng2 - lng1) * pi) / 180
      in (sin (dLat / 2))\<^sup>2 +
         cos ((lat1 * pi) / 180) * cos ((lat2 * pi) / 180) * (sin (dLng / 2))\<^sup>2)"

definition haversineDistance :: "real \<Rightarrow> real \<Rightarrow> real \<Rightarrow> real \<Rightarrow> real option" where
  "haversineDistance lat1 lng1 lat2 lng2 =
     (let R = 6371000; a = haversine_a lat1 lng1 lat2 lng2
      in if a < 0 \<or> 1 < a then None
         else Some (R * 2 * atan2 (sqrt a) (sqrt (1 - a))))"

section \<open>Delivery verification (verifyDelivery)\<close>

text \<open>
  The hexadecimal string \<open>ethers.ZeroHash\<close>: \<open>0x\<close> and 64 zeros.
\<close>

definition ZeroHash_hex :: string where
  "ZeroHash_hex = ''0x'' @ replicate 64 (CHR ''0'')"

text \<open>
  The proof object of a delivery confirmation.  A coordinate that is missing or not a
  number is \<open>None\<close>; \<open>cameraImageHash\<close> is whatever value the body carries.
\<close>

record proofData =
  dropLat :: "real option"
  dropLng :: "real option"
  cameraImageHash :: jsval
  droneId :: string
  officerId :: "string option"
  signature :: "string option"

datatype attestation =
    DroneAttestation string bool "real option" bool bool
  | HumanAttestation "string option" bool bool bool

text \<open>
  The result of a verification; \<open>verified\<close> is the truthiness of the value the code
  computes with \<open>&&\<close>, which is how the ledger write encodes it.
\<close>

record verification =
  verified :: bool
  attestation :: attestation
  verificationHash :: bytes32

text \<open>\<open>Math.round(distance * 10) / 10\<close>.\<close>

definition round_tenth :: "real \<Rightarrow> real" where
  "round_tenth d = of_int \<lfloor>d * 10 + 1 / 2\<rfloor> / 10"

definition drop_distance :: "proofData \<Rightarrow> real \<Rightarrow> real \<Rightarrow> real option" where
  "drop_distance p targetLat targetLng =
     (case (dropLat p, dropLng p) of
        (Some la, Some lo) \<Rightarrow> haversineDistance targetLat targetLng la lo
      | _ \<Rightarrow> None)"

definition cameraValid :: "jsval \<Rightarrow> bool" where
  "cameraValid h = (truthy h \<and> \<not> strict_eq h (JStr ZeroHash_hex))"

definition verifyDroneDelivery :: "bytes32 \<Rightarrow> proofData \<Rightarrow> real \<Rightarrow> real \<Rightarrow> verification" where
  "verifyDroneDelivery attHash p targetLat targetLng =
     (let distance = drop_distance p targetLat targetLng;
          gpsMatch = (case distance of None \<Rightarrow> False | Some d \<Rightarrow> d < 30);
          camera = cameraValid (cameraImageHash p)
      in \<lparr> verified = gpsMatch \<and> camera,
           attestation = DroneAttestation (droneId p) gpsMatch (map_option round_tenth distance)
                           camera (gpsMatch \<and> camera),
           verificationHash = attHash \<rparr>)"

definition nonempty_string :: "string option \<Rightarrow> bool" where
  "nonempty_string s = (case s of None \<Rightarrow> False | Some v \<Rightarrow> length v > 0)"

definition verifyAuthorityDelivery :: "bytes32 \<Rightarrow> proofData \<Rightarrow> verification" where
  "verifyAuthorityDelivery attHash p =
     (let signatureValid = nonempty_string (signature p);
          officerValid = nonempty_string (officerId p)
      in \<lparr> verified = signatureValid \<and> officerValid,
           attestation = HumanAttestation (officerId p) signatureValid officerValid
                           (signatureValid \<and> officerValid),
           verificationHash = attHash \<rparr>)"

definition verifyDelivery :: "bytes32 \<Rightarrow> string \<Rightarrow> proofData \<Rightarrow> real \<Rightarrow> real \<Rightarrow> verification" where
  "verifyDelivery attHash deliveryType p targetLat targetLng =
     (if deliveryType = ''drone'' then verifyDroneDelivery attHash p targetLat targetLng
      else verifyAuthorityDelivery attHash p)"

section \<open>The ledger contracts (AidChain.sol, FundPool.sol)\<close>

text \<open>
  Addresses and amounts are natural numbers; \<open>uint256\<close> arithmetic is taken without a bound,
  \<open>uint8\<close> arithmetic reverts on overflow as Solidity 0.8 does.  Block timestamps, the
  details hash and the event log are left out.
\<close>

type_synonym address = nat

datatype RequestStatus =
    Submitted | Verified | Approved | Rejected | Funded
  | DeliverySubmitted | DeliveryVerified | DeliveryFailed | Settled | TimedOut

record AidRequest =
  requester :: address
  aidType :: nat
  urgency :: nat
  lat :: int
  lng :: int
  status :: RequestStatus
  galileoProofHash :: bytes32
  fdcEventId :: bytes32
  fdcProofHash :: bytes32
  consensusHash :: bytes32
  recommendedAid :: nat
  fulfillerType :: nat
  estimatedCostUSD :: nat
  fulfiller :: address
  escrowAmount :: nat
  deliveryProofHash :: bytes32
  deliveryLat :: int
  deliveryLng :: int
  deliveryVerificationHash :: bytes32

record FundPool =
  aidChainContract :: address
  totalDeposited :: nat
  totalEscrowed :: nat
  totalPaidOut :: nat
  availableBalance :: nat
  requestEscrow :: "nat \<Rightarrow> nat"

record AidChain =
  this :: address
  owner :: address
  oracleOperator :: address
  fundPool :: FundPool
  nextRequestId :: nat
  aidRequests :: "nat \<Rightarrow> AidRequest"
  approvedFulfillers :: "address set"
  approvedPanelOperators :: "address set"

datatype sol_error = Revert string | Panic

definition checked_mul_uint8 :: "nat \<Rightarrow> nat \<Rightarrow> sol_error + nat" where
  "checked_mul_uint8 a b = (if a * b < 256 then Inr (a * b) else Inl Panic)"

definition escrowForRequest :: "address \<Rightarrow> nat \<Rightarrow> nat \<Rightarrow> FundPool \<Rightarrow> sol_error + FundPool" where
  "escrowForRequest sender rid amount p =
     (if sender \<noteq> aidChainContract p then Inl (Revert ''FundPool: not AidChain'')
      else if \<not> amount \<le> availableBalance p then Inl (Revert ''FundPool: insufficient funds'')
      else if requestEscrow p rid \<noteq> 0 then Inl (Revert ''FundPool: already escrowed'')
      else Inr (p \<lparr> availableBalance := availableBalance p - amount,
                     totalEscrowed := totalEscrowed p + amount,
                     requestEscrow := (requestEscrow p)(rid := amount) \<rparr>))"

definition releaseTo :: "address \<Rightarrow> address \<Rightarrow> nat \<Rightarrow> FundPool \<Rightarrow> sol_error + FundPool" where
  "releaseTo sender recipient amount p =
     (if sender \<noteq> aidChainContract p then Inl (Revert ''FundPool: not AidChain'')
      else if \<not> amount \<le> totalEscrowed p then Inl (Revert ''FundPool: escrow underflow'')
      else Inr (p \<lparr> totalEscrowed := totalEscrowed p - amount,
                     totalPaidOut := totalPaidOut p + amount \<rparr>))"

definition verifyRequest ::
  "address \<Rightarrow> nat \<Rightarrow> bytes32 \<Rightarrow> bytes32 \<Rightarrow> bytes32 \<Rightarrow> AidChain \<Rightarrow> sol_error + AidChain" where
  "verifyRequest sender rid gph fe fph c =
     (if sender \<noteq> oracleOperator c then Inl (Revert ''AidChain: not oracle'')
      else if \<not> rid < nextRequestId c then Inl (Revert ''AidChain: request does not exist'')
      else let r = aidRequests c rid in
        if AidRequest.status r \<noteq> Submitted then Inl (Revert ''AidChain: wrong status'')
        else Inr (c \<lparr> aidRequests := (aidRequests c)
                    (rid := r \<lparr> galileoProofHash := gph, fdcEventId := fe, fdcProofHash := fph,
                                 AidRequest.status := Verified \<rparr>) \<rparr>))"

text \<open>
  The supermajority requirement \<open>!approved || (approvalCount * 3 > nodeCount * 2)\<close> on
  \<open>uint8\<close> operands: the products are computed only for an approval, and overflow panics.
\<close>

definition supermajority_check :: "bool \<Rightarrow> nat \<Rightarrow> nat \<Rightarrow> sol_error + bool" where
  "supermajority_check isApproved nNodes nApprovals =
     (if \<not> isApproved then Inr True
      else case checked_mul_uint8 nApprovals 3 of
             Inl e \<Rightarrow> Inl e
           | Inr a3 \<Rightarrow> (case checked_mul_uint8 nNodes 2 of
                          Inl e \<Rightarrow> Inl e
                        | Inr n2 \<Rightarrow> Inr (a3 > n2)))"

definition submitConsensus ::
  "address \<Rightarrow> nat \<Rightarrow> bool \<Rightarrow> nat \<Rightarrow> nat \<Rightarrow> nat \<Rightarrow> bytes32 \<Rightarrow> nat \<Rightarrow> nat \<Rightarrow> AidChain
     \<Rightarrow> sol_error + AidChain" where
  "submitConsensus sender rid isApproved recAid ft cost chash nNodes nApprovals c =
     (if sender \<notin> approvedPanelOperators c then Inl (Revert ''AidChain: not panel operator'')
      else if \<not> rid < nextRequestId c then Inl (Revert ''AidChain: request does not exist'')
      else let r = aidRequests c rid in
        if AidRequest.status r \<noteq> Verified then Inl (Revert ''AidChain: not verified'')
        else if \<not> 3 \<le> nNodes then Inl (Revert ''AidChain: insufficient nodes'')
        else case supermajority_check isApproved nNodes nApprovals of
               Inl e \<Rightarrow> Inl e
             | Inr ok \<Rightarrow>
                 if \<not> ok then Inl (Revert ''AidChain: supermajority not met'')
                 else Inr (c \<lparr> aidRequests := (aidRequests c)
                     (rid := r \<lparr> AidRequest.consensusHash := chash,
                                  AidRequest.recommendedAid := recAid,
                                  AidRequest.fulfillerType := ft,
                                  AidRequest.estimatedCostUSD := cost,
                                  AidRequest.status := (if isApproved then Approved else Rejected) \<rparr>) \<rparr>))"

definition assignFulfiller :: "address \<Rightarrow> nat \<Rightarrow> address \<Rightarrow> AidChain \<Rightarrow> sol_error + AidChain" where
  "assignFulfiller sender rid f c =
     (if sender \<noteq> oracleOperator c then Inl (Revert ''AidChain: not oracle'')
      else if \<not> rid < nextRequestId c then Inl (Revert ''AidChain: request does not exist'')
      else let r = aidRequests c rid in
        if AidRequest.status r \<noteq> Approved then Inl (Revert ''AidChain: not approved'')
        else if f \<notin> approvedFulfillers c then Inl (Revert ''AidChain: fulfiller not approved'')
        else case escrowForRequest (this c) rid (AidRequest.estimatedCostUSD r) (fundPool c) of
               Inl e \<Rightarrow> Inl e
             | Inr p \<Rightarrow>
                 Inr (c \<lparr> fundPool := p,
                          aidRequests := (aidRequests c)
                            (rid := r \<lparr> fulfiller := f,
                                         escrowAmount := AidRequest.estimatedCostUSD r,
                                         AidRequest.status := Funded \<rparr>) \<rparr>))"

definition confirmDelivery ::
  "address \<Rightarrow> nat \<Rightarrow> bytes32 \<Rightarrow> int \<Rightarrow> int \<Rightarrow> AidChain \<Rightarrow> sol_error + AidChain" where
  "confirmDelivery sender rid dhash dlat dlng c =
     (if \<not> rid < nextRequestId c then Inl (Revert ''AidChain: request does not exist'')
      else let r = aidRequests c rid in
        if AidRequest.status r \<noteq> Funded then Inl (Revert ''AidChain: not funded'')
        else if sender \<noteq> fulfiller r then Inl (Revert ''AidChain: not assigned fulfiller'')
        else Inr (c \<lparr> aidRequests := (aidRequests c)
                    (rid := r \<lparr> deliveryProofHash := dhash, deliveryLat := dlat,
                                 deliveryLng := dlng,
                                 AidRequest.status := DeliverySubmitted \<rparr>) \<rparr>))"

definition verifyDelivery_sol ::
  "address \<Rightarrow> nat \<Rightarrow> bool \<Rightarrow> bytes32 \<Rightarrow> AidChain \<Rightarrow> sol_error + AidChain" where
  "verifyDelivery_sol sender rid ok vhash c =
     (if sender \<noteq> oracleOperator c then Inl (Revert ''AidChain: not oracle'')
      else if \<not> rid < nextRequestId c then Inl (Revert ''AidChain: request does not exist'')
      else let r = aidRequests c rid in
        if AidRequest.status r \<noteq> DeliverySubmitted
        then Inl (Revert ''AidChain: delivery not submitted'')
        else Inr (c \<lparr> aidRequests := (aidRequests c)
                    (rid := r \<lparr> deliveryVerificationHash := vhash,
                                 AidRequest.status :=
                                   (if ok then DeliveryVerified else DeliveryFailed) \<rparr>) \<rparr>))"

definition releasePayout :: "address \<Rightarrow> nat \<Rightarrow> AidChain \<Rightarrow> sol_error + AidChain" where
  "releasePayout sender rid c =
     (if sender \<noteq> oracleOperator c then Inl (Revert ''AidChain: not oracle'')
      else if \<not> rid < nextRequestId c then Inl (Revert ''AidChain: request does not exist'')
      else let r = aidRequests c rid in
        if AidRequest.status r \<noteq> DeliveryVerified
        then Inl (Revert ''AidChain: delivery not verified'')
        else case releaseTo (this c) (fulfiller r) (escrowAmount r) (fundPool c) of
               Inl e \<Rightarrow> Inl e
             | Inr p \<Rightarrow>
                 Inr (c \<lparr> fundPool := p,
                          aidRequests := (aidRequests c)
                            (rid := r \<lparr> AidRequest.status := Settled \<rparr>) \<rparr>))"

definition getRequest_sol :: "nat \<Rightarrow> AidChain \<Rightarrow> sol_error + AidRequest" where
  "getRequest_sol rid c =
     (if \<not> rid < nextRequestId c then Inl (Revert ''AidChain: request does not exist'')
      else Inr (aidRequests c rid))"

section \<open>Ledger adapter (services/blockchain.js)\<close>

text \<open>
  The adapter's view of the world: the chain, whether a contract address is configured
  (\<open>aidChainContract\<close> is defined), the oracle signer if a key is configured, and the RPC
  endpoint.  The endpoint is a schedule of outcomes, one per awaited request in order:
  \<open>Some\<close> fault makes that request fail transiently, \<open>None\<close> (or the end of the schedule)
  lets it through.  \<open>rpcCalls\<close> counts the requests awaited so far, \<open>txAttempts\<close> the
  contract write calls made so far.
\<close>

datatype rpc_fault = RpcTimeout | NodeError

datatype adapter_error =
    NotInitialized
  | JsTypeError
  | UnsupportedOperation
  | InvalidArgument
  | Transient rpc_fault
  | CallException sol_error

record backend =
  chain :: AidChain
  contractConfigured :: bool
  oracleSigner :: "address option"
  rpcSchedule :: "rpc_fault option list"
  rpcCalls :: nat
  txAttempts :: nat

definition next_fault :: "backend \<Rightarrow> rpc_fault option" where
  "next_fault b =
     (if rpcCalls b < length (rpcSchedule b) then rpcSchedule b ! rpcCalls b else None)"


text \<open>
  A write as every adapter function makes it: \<open>const tx = await contract.f(...)\<close> and then
  \<open>const receipt = await tx.wait()\<close>, each awaited once.  The call throws before any
  request when the contract or the signer is missing or an argument does not encode.  The
  first request sends the transaction: a fault or a revert there is thrown and nothing was
  sent.  The second waits for the receipt: a fault there is thrown to the caller after the
  transaction was sent, so the chain has changed.  There is no loop around either.
\<close>

definition sendTransaction ::
  "bool \<Rightarrow> (address \<Rightarrow> AidChain \<Rightarrow> sol_error + AidChain) \<Rightarrow> backend
     \<Rightarrow> (adapter_error + unit) \<times> backend" where
  "sendTransaction encodable call b =
     (if \<not> contractConfigured b then (Inl JsTypeError, b)
      else case oracleSigner b of
        None \<Rightarrow> (Inl UnsupportedOperation, b)
      | Some signer \<Rightarrow>
          if \<not> encodable then (Inl InvalidArgument, b)
          else let b1 = b \<lparr> rpcCalls := rpcCalls b + 1, txAttempts := txAttempts b + 1 \<rparr> in
            case next_fault b of
              Some fault \<Rightarrow> (Inl (Transient fault), b1)
            | None \<Rightarrow>
                (case call signer (chain b) of
                   Inl e \<Rightarrow> (Inl (CallException e), b1)
                 | Inr c' \<Rightarrow>
                     let b2 = b1 \<lparr> rpcCalls := rpcCalls b1 + 1, chain := c' \<rparr> in
                     case next_fault b1 of
                       Some fault \<Rightarrow> (Inl (Transient fault), b2)
                     | None \<Rightarrow> (Inr (), b2)))"

definition submitVerification ::
  "nat \<Rightarrow> bytes32 \<Rightarrow> bytes32 \<Rightarrow> bytes32 \<Rightarrow> backend \<Rightarrow> (adapter_error + unit) \<times> backend" where
  "submitVerification rid gph fe fph =
     sendTransaction True (\<lambda>sender. verifyRequest sender rid gph fe fph)"

text \<open>
  \<open>submitConsensusOnChain\<close> first converts the cost with \<open>estimatedCostUSD.toString()\<close>
  (a \<open>TypeError\<close> on \<open>undefined\<close>) and \<open>parseUnits(..., 6)\<close>; the \<open>uint8\<close> and \<open>uint256\<close>
  arguments must then be in range to encode.
\<close>

definition uint8_arg :: "nat option \<Rightarrow> bool" where
  "uint8_arg v = (case v of None \<Rightarrow> False | Some n \<Rightarrow> n < 256)"

definition submitConsensusOnChain ::
  "nat \<Rightarrow> bool \<Rightarrow> nat option \<Rightarrow> nat option \<Rightarrow> int option \<Rightarrow> bytes32 \<Rightarrow> nat \<Rightarrow> nat \<Rightarrow> backend
     \<Rightarrow> (adapter_error + unit) \<times> backend" where
  "submitConsensusOnChain rid isApproved recAid ft cost chash nNodes nApprovals b =
     (case cost of
        None \<Rightarrow> (Inl JsTypeError, b)
      | Some usd \<Rightarrow>
          let costInUnits = usd * 1000000 in
          sendTransaction
            (uint8_arg recAid \<and> uint8_arg ft \<and> 0 \<le> costInUnits \<and> costInUnits < 2 ^ 256
               \<and> nNodes < 256 \<and> nApprovals < 256)
            (\<lambda>sender. submitConsensus sender rid isApproved (case_option 0 id recAid)
                         (case_option 0 id ft) (nat costInUnits) chash nNodes nApprovals)
            b)"

definition assignFulfillerOnChain ::
  "nat \<Rightarrow> address \<Rightarrow> backend \<Rightarrow> (adapter_error + unit) \<times> backend" where
  "assignFulfillerOnChain rid fulfillerAddress =
     sendTransaction True (\<lambda>sender. assignFulfiller sender rid fulfillerAddress)"

definition verifyDeliveryOnChain ::
  "nat \<Rightarrow> bool \<Rightarrow> bytes32 \<Rightarrow> backend \<Rightarrow> (adapter_error + unit) \<times> backend" where
  "verifyDeliveryOnChain rid ok vhash =
     sendTransaction True (\<lambda>sender. verifyDelivery_sol sender rid ok vhash)"

definition releasePayoutOnChain :: "nat \<Rightarrow> backend \<Rightarrow> (adapter_error + unit) \<times> backend" where
  "releasePayoutOnChain rid = sendTransaction True (\<lambda>sender. releasePayout sender rid)"

text \<open>
  The contract is called through ethers version 6 (\<open>ethers.JsonRpcProvider\<close>,
  \<open>ethers.ZeroHash\<close>, \<open>receipt.hash\<close>), whose decoder returns every \<open>uint\<close> and \<open>int\<close> as
  a bigint.  A bigint is never strictly equal to a number, not even \<open>0n\<close> to \<open>0\<close>.
\<close>

datatype js_numeric = Number int | BigInt int

fun strict_eq_numeric :: "js_numeric \<Rightarrow> js_numeric \<Rightarrow> bool" where
  "strict_eq_numeric (Number a) (Number b) = (a = b)"
| "strict_eq_numeric (BigInt a) (BigInt b) = (a = b)"
| "strict_eq_numeric (Number a) (BigInt b) = False"
| "strict_eq_numeric (BigInt a) (Number b) = False"

text \<open>
  What \<open>formatRequest\<close> makes of the fields the orchestrator reads: the status, the
  coordinates in degrees (\<open>Number(raw.lat) / 1e7\<close>) and the fulfiller class as a string,
  \<open>raw.fulfillerType === 0 ? "drone" : "human"\<close> on the decoded bigint.
\<close>

record request_view =
  statusCode :: RequestStatus
  lat :: real
  lng :: real
  fulfillerType :: string

definition formatRequest :: "AidRequest \<Rightarrow> request_view" where
  "formatRequest raw =
     \<lparr> statusCode = AidRequest.status raw,
       lat = real_of_int (AidRequest.lat raw) / 10000000,
       lng = real_of_int (AidRequest.lng raw) / 10000000,
       fulfillerType =
         (if strict_eq_numeric (BigInt (int (AidRequest.fulfillerType raw))) (Number 0)
          then ''drone'' else ''human'') \<rparr>"

definition getRequest :: "nat \<Rightarrow> backend \<Rightarrow> (adapter_error + request_view) \<times> backend" where
  "getRequest rid b =
     (if \<not> contractConfigured b then (Inl NotInitialized, b)
      else let b' = b \<lparr> rpcCalls := rpcCalls b + 1 \<rparr> in
        case next_fault b of
          Some fault \<Rightarrow> (Inl (Transient fault), b')
        | None \<Rightarrow>
            (case getRequest_sol rid (chain b) of
               Inl e \<Rightarrow> (Inl (CallException e), b')
             | Inr raw \<Rightarrow> (Inr (formatRequest raw), b')))"






text \<open>No request from now on meets a transient fault.\<close>

definition quiet :: "backend \<Rightarrow> bool" where
  "quiet b =
     (\<forall>k. rpcCalls b \<le> k \<and> k < length (rpcSchedule b) \<longrightarrow> rpcSchedule b ! k = None)"


section \<open>Pipeline orchestrator (services/pipeline.js)\<close>

text \<open>
  A pipeline runs here from its start to its return without interleaving with another
  one.  The off-chain services are inputs: the outcome of the Galileo check, of the event
  check, the panel's node results with the digest of their transcript, and the outcome of
  the dispatch.
\<close>

datatype stage_ref = StageName string | StageNum nat

datatype pipeline_failure =
    PipelineError string
  | Thrown adapter_error
  | ThrownJs js_error

record PipelineState =
  requestId :: nat
  currentStage :: nat
  stages :: "string list"
  error :: "pipeline_failure option"

text \<open>
  An event as \<open>emit\<close> builds it, without timestamp, message and payload.  The data of an
  \<open>error\<close> event carries its own \<open>stage\<close>, which replaces the stage name of the event.
\<close>

record pipeline_event =
  requestId :: nat
  stage :: stage_ref
  status :: "string option"

record orchestrator =
  activePipelines :: "nat \<rightharpoonup> PipelineState"
  ledger :: backend
  emitted :: "pipeline_event list"

record pipeline_params =
  requestId :: nat
  aidType :: string
  urgency :: string
  lat :: real
  lng :: real

record pipeline_env =
  galileoValid :: bool
  galileoProof :: bytes32
  fdcVerified :: bool
  panelResults :: "node_result list"
  transcriptHash :: bytes32
  dispatchSuccess :: bool

record pipeline_result =
  success :: bool
  failure :: "pipeline_failure option"
  failedStage :: "stage_ref option"

definition emit :: "nat \<Rightarrow> string \<Rightarrow> string \<Rightarrow> orchestrator \<Rightarrow> orchestrator" where
  "emit rid stageName stat orch =
     orch \<lparr> emitted := emitted orch @
              [\<lparr> pipeline_event.requestId = rid, stage = StageName stageName,
                 status = Some stat \<rparr>] \<rparr>"

definition emit_error :: "nat \<Rightarrow> stage_ref \<Rightarrow> orchestrator \<Rightarrow> orchestrator" where
  "emit_error rid failed orch =
     orch \<lparr> emitted := emitted orch @
              [\<lparr> pipeline_event.requestId = rid, stage = failed, status = None \<rparr>] \<rparr>"

text \<open>Assignments to the \<open>state\<close> object, which is the object held by the registry.\<close>

definition update_state :: "nat \<Rightarrow> (PipelineState \<Rightarrow> PipelineState) \<Rightarrow> orchestrator \<Rightarrow> orchestrator" where
  "update_state rid f orch =
     (case activePipelines orch rid of
        None \<Rightarrow> orch
      | Some st \<Rightarrow> orch \<lparr> activePipelines := (activePipelines orch)(rid \<mapsto> f st) \<rparr>)"

definition enter_stage :: "nat \<Rightarrow> nat \<Rightarrow> orchestrator \<Rightarrow> orchestrator" where
  "enter_stage rid n = update_state rid (\<lambda>st. st \<lparr> currentStage := n \<rparr>)"

definition complete_stage :: "nat \<Rightarrow> string \<Rightarrow> orchestrator \<Rightarrow> orchestrator" where
  "complete_stage rid key = update_state rid (\<lambda>st. st \<lparr> stages := stages st @ [key] \<rparr>)"

text \<open>An awaited ledger write inside the \<open>try\<close> block.\<close>

definition ledger_write ::
  "(backend \<Rightarrow> (adapter_error + unit) \<times> backend) \<Rightarrow> orchestrator
     \<Rightarrow> (pipeline_failure + unit) \<times> orchestrator" where
  "ledger_write write orch =
     (case write (ledger orch) of
        (Inl e, b') \<Rightarrow> (Inl (Thrown e), orch \<lparr> ledger := b' \<rparr>)
      | (Inr u, b') \<Rightarrow> (Inr (), orch \<lparr> ledger := b' \<rparr>))"

text \<open>Sequencing of two steps of the \<open>try\<close> block: a throw skips the rest.\<close>

definition and_then ::
  "(orchestrator \<Rightarrow> (pipeline_failure + 'a) \<times> orchestrator)
     \<Rightarrow> ('a \<Rightarrow> orchestrator \<Rightarrow> (pipeline_failure + 'b) \<times> orchestrator)
     \<Rightarrow> orchestrator \<Rightarrow> (pipeline_failure + 'b) \<times> orchestrator" where
  "and_then step rest orch =
     (case step orch of
        (Inl e, orch') \<Rightarrow> (Inl e, orch')
      | (Inr x, orch') \<Rightarrow> rest x orch')"

definition ZIPLINE_WALLET :: address where
  "ZIPLINE_WALLET = 0x1234567890abcdef1234567890abcdef12345678"

definition AUTHORITY_WALLET :: address where
  "AUTHORITY_WALLET = 0xabcdef1234567890abcdef1234567890abcdef12"

text \<open>The consensus passes a numeric fulfiller class: 0 selects the drone fulfiller.\<close>

definition getFulfillerAddress :: "nat option \<Rightarrow> address" where
  "getFulfillerAddress ft = (if ft = Some 0 then ZIPLINE_WALLET else AUTHORITY_WALLET)"

text \<open>A statement that only assigns and emits, a \<open>throw\<close>, and the value of a block.\<close>

definition step ::
  "(orchestrator \<Rightarrow> orchestrator) \<Rightarrow> orchestrator \<Rightarrow> (pipeline_failure + unit) \<times> orchestrator" where
  "step f orch = (Inr (), f orch)"

definition throw :: "pipeline_failure \<Rightarrow> orchestrator \<Rightarrow> (pipeline_failure + 'a) \<times> orchestrator" where
  "throw e orch = (Inl e, orch)"

definition yield :: "'a \<Rightarrow> orchestrator \<Rightarrow> (pipeline_failure + 'a) \<times> orchestrator" where
  "yield x orch = (Inr x, orch)"

definition stage_request :: "nat \<Rightarrow> orchestrator \<Rightarrow> (pipeline_failure + unit) \<times> orchestrator" where
  "stage_request rid =
     step (\<lambda>orch. complete_stage rid ''request''
                    (emit rid ''request'' ''confirmed'' (enter_stage rid 1 orch)))"

definition stage_gps_verify ::
  "nat \<Rightarrow> pipeline_env \<Rightarrow> orchestrator \<Rightarrow> (pipeline_failure + unit) \<times> orchestrator" where
  "stage_gps_verify rid env =
     and_then (step (\<lambda>orch. emit rid ''gps_verify'' ''started'' (enter_stage rid 2 orch))) (\<lambda>u.
     if \<not> galileoValid env then throw (PipelineError ''GPS_VERIFY'')
     else
       and_then (ledger_write (submitVerification rid (galileoProof env) ZeroHash ZeroHash)) (\<lambda>u.
       step (\<lambda>orch. complete_stage rid ''gpsVerify''
                      (emit rid ''gps_verify'' ''completed'' orch))))"

definition stage_event_verify ::
  "nat \<Rightarrow> pipeline_env \<Rightarrow> orchestrator \<Rightarrow> (pipeline_failure + unit) \<times> orchestrator" where
  "stage_event_verify rid env =
     and_then (step (\<lambda>orch. emit rid ''event_verify'' ''started'' (enter_stage rid 3 orch))) (\<lambda>u.
     if \<not> fdcVerified env then throw (PipelineError ''EVENT_VERIFY'')
     else step (\<lambda>orch. complete_stage rid ''eventVerify''
                         (emit rid ''event_verify'' ''completed'' orch)))"

definition stage_llm_panel ::
  "nat \<Rightarrow> pipeline_env \<Rightarrow> orchestrator \<Rightarrow> (pipeline_failure + consensus) \<times> orchestrator" where
  "stage_llm_panel rid env =
     and_then (step (\<lambda>orch. emit rid ''llm_panel'' ''started'' (enter_stage rid 4 orch))) (\<lambda>u.
     case runConsensus (transcriptHash env) (panelResults env) of
       Inl e \<Rightarrow> throw (ThrownJs e)
     | Inr consensusResult \<Rightarrow>
         if \<not> consensus.approved consensusResult then
           and_then
             (ledger_write
                (submitConsensusOnChain rid False (Some 0) (Some 0) (Some 0)
                   (consensus.consensusHash consensusResult)
                   (nodeCount consensusResult) (approvalCount consensusResult))) (\<lambda>u.
           throw (PipelineError ''LLM_PANEL''))
         else
           and_then
             (ledger_write
                (submitConsensusOnChain rid True
                   (consensus.recommendedAid consensusResult)
                   (consensus.fulfillerType consensusResult)
                   (consensus.estimatedCostUSD consensusResult)
                   (consensus.consensusHash consensusResult)
                   (nodeCount consensusResult) (approvalCount consensusResult))) (\<lambda>u.
           and_then
             (step (\<lambda>orch. complete_stage rid ''llmPanel''
                             (emit rid ''llm_panel'' ''completed'' orch))) (\<lambda>u.
           yield consensusResult)))"

definition stage_contract ::
  "nat \<Rightarrow> consensus \<Rightarrow> orchestrator \<Rightarrow> (pipeline_failure + unit) \<times> orchestrator" where
  "stage_contract rid consensusResult =
     and_then (step (\<lambda>orch. emit rid ''contract'' ''started'' (enter_stage rid 5 orch))) (\<lambda>u.
     and_then
       (ledger_write
          (assignFulfillerOnChain rid
             (getFulfillerAddress (consensus.fulfillerType consensusResult)))) (\<lambda>u.
     step (\<lambda>orch. complete_stage rid ''contract'' (emit rid ''contract'' ''completed'' orch))))"

definition stage_fulfillment ::
  "nat \<Rightarrow> pipeline_env \<Rightarrow> orchestrator \<Rightarrow> (pipeline_failure + unit) \<times> orchestrator" where
  "stage_fulfillment rid env =
     and_then (step (\<lambda>orch. emit rid ''fulfillment'' ''started'' (enter_stage rid 6 orch))) (\<lambda>u.
     if \<not> dispatchSuccess env then throw (PipelineError ''FULFILLMENT'')
     else step (\<lambda>orch. complete_stage rid ''fulfillment''
                         (emit rid ''fulfillment'' ''completed'' orch)))"

definition pipeline_try ::
  "nat \<Rightarrow> pipeline_env \<Rightarrow> orchestrator \<Rightarrow> (pipeline_failure + unit) \<times> orchestrator" where
  "pipeline_try rid env =
     and_then (stage_request rid) (\<lambda>u1.
     and_then (stage_gps_verify rid env) (\<lambda>u2.
     and_then (stage_event_verify rid env) (\<lambda>u3.
     and_then (stage_llm_panel rid env) (\<lambda>consensusResult.
     and_then (stage_contract rid consensusResult) (\<lambda>u5.
     stage_fulfillment rid env)))))"

definition failed_stage_of :: "pipeline_failure \<Rightarrow> orchestrator \<Rightarrow> nat \<Rightarrow> stage_ref" where
  "failed_stage_of err orch rid =
     (case err of
        PipelineError stageName \<Rightarrow> StageName stageName
      | _ \<Rightarrow> StageNum (case activePipelines orch rid of None \<Rightarrow> 0 | Some st \<Rightarrow> currentStage st))"

definition executePipeline ::
  "pipeline_params \<Rightarrow> pipeline_env \<Rightarrow> orchestrator \<Rightarrow> pipeline_result \<times> orchestrator" where
  "executePipeline params env orch =
     (let rid = pipeline_params.requestId params;
          state = \<lparr> PipelineState.requestId = rid, currentStage = 1, stages = [], error = None \<rparr>;
          o0 = orch \<lparr> activePipelines := (activePipelines orch)(rid \<mapsto> state) \<rparr>
      in case pipeline_try rid env o0 of
           (Inr u, o1) \<Rightarrow>
             (\<lparr> success = True, failure = None, failedStage = None \<rparr>,
              emit rid ''awaiting_delivery'' ''pending'' o1)
         | (Inl err, o1) \<Rightarrow>
             (let o2 = update_state rid (\<lambda>st. st \<lparr> error := Some err \<rparr>) o1;
                  failed = failed_stage_of err o2 rid
              in (\<lparr> success = False, failure = Some err, failedStage = Some failed \<rparr>,
                  emit_error rid failed o2)))"



definition getPipelineState :: "nat \<Rightarrow> orchestrator \<Rightarrow> PipelineState option" where
  "getPipelineState rid orch = activePipelines orch rid"

text \<open>
  Two states of the orchestrator agree but for a request when every other entry of the
  registry is the same in both and a record of that request in the first is still present
  in the second; a step keeps the registry but for a request when it relates every state
  to its successor in this way.
\<close>

definition same_but :: "nat \<Rightarrow> orchestrator \<Rightarrow> orchestrator \<Rightarrow> bool" where
  "same_but rid orch orch' =
     ((\<forall>k. k \<noteq> rid \<longrightarrow> activePipelines orch' k = activePipelines orch k)
      \<and> (activePipelines orch rid \<noteq> None \<longrightarrow> activePipelines orch' rid \<noteq> None))"


section \<open>WebSocket subscription filter (server.js)\<close>

datatype ws_out = Connected | Subscribed jsval | PipelineEventMsg pipeline_event

text \<open>
  A connected socket: its \<open>readyState\<close> (1 is OPEN), the property \<open>subscribedRequestId\<close>
  (\<open>JUndefined\<close> until a subscription sets it) and the messages sent to it so far.
\<close>

record ws_client =
  readyState :: nat
  subscribedRequestId :: jsval
  sent :: "ws_out list"

definition ws_connect :: ws_client where
  "ws_connect = \<lparr> readyState = 1, subscribedRequestId = JUndefined, sent = [Connected] \<rparr>"

text \<open>
  A message from the client after \<open>JSON.parse\<close>: \<open>None\<close> when parsing or reading a property
  throws (the handler ignores it), otherwise the values of \<open>msg.type\<close> and \<open>msg.requestId\<close>.
\<close>

definition ws_on_message :: "(jsval \<times> jsval) option \<Rightarrow> ws_client \<Rightarrow> ws_client" where
  "ws_on_message msg ws =
     (case msg of
        None \<Rightarrow> ws
      | Some (msg_type, msg_requestId) \<Rightarrow>
          if strict_eq msg_type (JStr ''subscribe'') \<and> \<not> strict_eq msg_requestId JUndefined
          then ws \<lparr> subscribedRequestId := msg_requestId,
                    sent := sent ws @ [Subscribed msg_requestId] \<rparr>
          else ws)"

text \<open>The test of the broadcast loop for one client and one event.\<close>

definition ws_wants :: "ws_client \<Rightarrow> pipeline_event \<Rightarrow> bool" where
  "ws_wants ws event =
     (readyState ws = 1 \<and>
      (\<not> truthy (subscribedRequestId ws)
       \<or> strict_eq (subscribedRequestId ws) (JNum (int (pipeline_event.requestId event)))))"

definition broadcast :: "pipeline_event \<Rightarrow> ws_client list \<Rightarrow> ws_client list" where
  "broadcast event wsClients =
     map (\<lambda>ws. if ws_wants ws event then ws \<lparr> sent := sent ws @ [PipelineEventMsg event] \<rparr> else ws)
       wsClients"

definition subscribe_msg :: "nat \<Rightarrow> (jsval \<times> jsval) option" where
  "subscribe_msg n = Some (JStr ''subscribe'', JNum (int n))"

definition event_for :: "nat \<Rightarrow> pipeline_event" where
  "event_for n = \<lparr> pipeline_event.requestId = n, stage = StageName ''gps_verify'',
                   status = Some ''started'' \<rparr>"

section \<open>Event attestation (services/fdc.js)\<close>

record event =
  id' :: string
  type' :: string
  name :: string
  severity :: string
  region :: string
  lat :: real
  lng :: real
  radiusKm :: real
  active :: bool
  sources :: "string list"

text \<open>
  The object \<open>grouped\<close>: its entries in insertion order, with distinct keys.  The own keys
  of an object are listed with the array indices first, in ascending numeric order, and
  then the other strings in insertion order.
\<close>

type_synonym grouped = "(string \<times> event) list"

definition index_value :: "string \<Rightarrow> nat" where
  "index_value k = foldl (\<lambda>n c. 10 * n + (of_char c - 48)) 0 k"

definition is_array_index :: "string \<Rightarrow> bool" where
  "is_array_index k =
     (k \<noteq> [] \<and> (\<forall>c \<in> set k. c \<in> set ''0123456789'')
      \<and> (k = ''0'' \<or> take 1 k \<noteq> ''0'') \<and> index_value k < 2 ^ 32 - 1)"

definition own_entries :: "grouped \<Rightarrow> grouped" where
  "own_entries g =
     sort_key (\<lambda>kv. index_value (fst kv)) (filter (\<lambda>kv. is_array_index (fst kv)) g)
     @ filter (\<lambda>kv. \<not> is_array_index (fst kv)) g"

text \<open>The test of the inner loop: same type, and centres less than 50 km apart.\<close>

definition same_event :: "event \<Rightarrow> event \<Rightarrow> bool" where
  "same_event existing e =
     (type' existing = type' e \<and>
      (case haversineDistance (event.lat existing) (event.lng existing) (event.lat e) (event.lng e) of
         None \<Rightarrow> False
       | Some d \<Rightarrow> d / 1000 < 50))"

text \<open>\<open>[...new Set([...a, ...b])]\<close>: the first occurrence of each source, in order.\<close>

definition union_sources :: "string list \<Rightarrow> string list \<Rightarrow> string list" where
  "union_sources a b = rev (remdups (rev (a @ b)))"

definition find_existing :: "event \<Rightarrow> grouped \<Rightarrow> string option" where
  "find_existing e entries =
     map_option fst (List.find (\<lambda>kv. same_event (snd kv) e) entries)"

definition merge_into :: "string \<Rightarrow> event \<Rightarrow> grouped \<Rightarrow> grouped" where
  "merge_into k e g =
     map (\<lambda>kv. if fst kv = k
                then (fst kv, (snd kv) \<lparr> sources := union_sources (sources (snd kv)) (sources e) \<rparr>)
                else kv) g"

text \<open>\<open>grouped[k] = v\<close>: an existing key keeps its place.\<close>

definition assign_key :: "string \<Rightarrow> event \<Rightarrow> grouped \<Rightarrow> grouped" where
  "assign_key k v g =
     (if k \<in> fst ` set g then map (\<lambda>kv. if fst kv = k then (k, v) else kv) g
      else g @ [(k, v)])"

definition dedup_step :: "grouped \<Rightarrow> event \<Rightarrow> grouped" where
  "dedup_step g e =
     (case find_existing e (own_entries g) of
        Some k \<Rightarrow> merge_into k e g
      | None \<Rightarrow> assign_key (id' e) e g)"

definition deduplicateEvents :: "event list \<Rightarrow> event list" where
  "deduplicateEvents events = map snd (own_entries (foldl dedup_step [] events))"

text \<open>
  The score of one event.  \<open>None\<close> is \<open>NaN\<close>.  A zero radius makes the quotient infinite
  (the proximity is then 0) or, at distance 0, \<open>NaN\<close>; a distance is never negative.
\<close>

definition severityScore :: "string \<Rightarrow> real" where
  "severityScore sev =
     (if sev = ''critical'' then 1
      else if sev = ''severe'' then 0.75
      else if sev = ''moderate'' then 0.5
      else if sev = ''low'' then 0.25
      else 0)"

definition proximityScore :: "real \<Rightarrow> real \<Rightarrow> real option" where
  "proximityScore distance r =
     (if r = 0 then (if distance = 0 then None else Some 0)
      else Some (max 0 (1 - distance / r)))"

definition event_score :: "real \<Rightarrow> real \<Rightarrow> event \<Rightarrow> real option" where
  "event_score userLat userLng e =
     (case haversineDistance userLat userLng (event.lat e) (event.lng e) of
        None \<Rightarrow> None
      | Some metres \<Rightarrow>
          (case proximityScore (metres / 1000) (radiusKm e) of
             None \<Rightarrow> None
           | Some proximity \<Rightarrow>
               Some (proximity * 0.5 + (real (length (sources e)) / 3) * 0.3
                     + severityScore (severity e) * 0.2)))"

text \<open>
  \<open>scored.sort((a, b) => b.score - a.score)\<close>, a stable sort; a comparison with \<open>NaN\<close>
  counts as a tie.
\<close>

definition sorts_after :: "real option \<Rightarrow> real option \<Rightarrow> bool" where
  "sorts_after a b = (case (a, b) of (Some x, Some y) \<Rightarrow> 0 < y - x | _ \<Rightarrow> False)"

fun insert_scored :: "event \<times> real option \<Rightarrow> (event \<times> real option) list \<Rightarrow> (event \<times> real option) list" where
  "insert_scored x [] = [x]"
| "insert_scored x (y # ys) =
     (if sorts_after (snd x) (snd y) then y # insert_scored x ys else x # y # ys)"

definition sort_scored :: "(event \<times> real option) list \<Rightarrow> (event \<times> real option) list" where
  "sort_scored xs = foldr insert_scored xs []"

definition findBestMatch :: "event list \<Rightarrow> real \<Rightarrow> real \<Rightarrow> (event \<times> real option) option" where
  "findBestMatch events userLat userLng =
     (case sort_scored (map (\<lambda>e. (e, event_score userLat userLng e)) events) of
        [] \<Rightarrow> None
      | best # rest \<Rightarrow> Some best)"

text \<open>
  The score as the specification words it, for a distance and a radius in km, a source
  count and a severity weight.
\<close>

definition spec_score :: "real \<Rightarrow> real \<Rightarrow> nat \<Rightarrow> real \<Rightarrow> real" where
  "spec_score distance r n sev =
     0.5 * max 0 (1 - distance / r) + 0.3 * min 1 (real n / 3) + 0.2 * sev"

text \<open>
  What every provider parser produces: one source, the provider's name, and a radius that
  is not zero (a configured default replaces a missing or zero radius).
\<close>

definition provider_event :: "event \<Rightarrow> bool" where
  "provider_event e =
     (sources e \<in> {[''GDACS''], [''USGS''], [''ReliefWeb'']} \<and> radiusKm e \<noteq> 0)"

text \<open>The two events \<open>queryGDACS\<close> returns outside production, and a second report.\<close>

definition mozambique_flood :: event where
  "mozambique_flood =
     \<lparr> id' = ''gdacs-fl-2026-001'', type' = ''flood'', name = ''Mozambique Flooding 2026'',
       severity = ''critical'', region = ''Zambezia Province, Mozambique'',
       lat = - 17.05, lng = 36.87, radiusKm = 200, active = True, sources = [''GDACS''] \<rparr>"

definition turkey_earthquake :: event where
  "turkey_earthquake =
     \<lparr> id' = ''gdacs-eq-2026-002'', type' = ''earthquake'', name = ''Eastern Turkey Earthquake'',
       severity = ''severe'', region = ''Van Province, Turkey'',
       lat = 38.49, lng = 43.38, radiusKm = 150, active = True, sources = [''GDACS''] \<rparr>"

definition reliefweb_flood :: event where
  "reliefweb_flood =
     \<lparr> id' = ''reliefweb-51234'', type' = ''flood'', name = ''Mozambique: Floods'',
       severity = ''severe'', region = ''Mozambique'',
       lat = - 17.05, lng = 36.87, radiusKm = 200, active = True, sources = [''ReliefWeb''] \<rparr>"

definition sample_events :: "event list" where
  "sample_events = [mozambique_flood, turkey_earthquake, reliefweb_flood]"

text \<open>
  The entries of \<open>grouped\<close> are separated when no two of them, under different keys, pass
  the test of the inner loop; they are sourced by the providers when each source list is
  free of repetitions and names the three providers only, with a radius that is not zero.
\<close>

definition separated :: "grouped \<Rightarrow> bool" where
  "separated g =
     (distinct (map fst g) \<and>
      (\<forall>kx \<in> set g. \<forall>ky \<in> set g. fst kx \<noteq> fst ky \<longrightarrow> \<not> same_event (snd kx) (snd ky)))"

definition provider_sourced :: "event \<Rightarrow> bool" where
  "provider_sourced x =
     (distinct (sources x) \<and> set (sources x) \<subseteq> {''GDACS'', ''USGS'', ''ReliefWeb''}
      \<and> radiusKm x \<noteq> 0)"

section \<open>Sample inputs\<close>

definition drone_proof_on_target :: proofData where
  "drone_proof_on_target =
     \<lparr> dropLat = Some 0, dropLng = Some 0, cameraImageHash = JStr ''0xabc123'',
       droneId = ''zip-7'', officerId = None, signature = None \<rparr>"


text \<open>
  A chain with one request, number 0, whose oracle (address 1) is also the approved panel
  operator; both configured fulfiller wallets are approved and the pool holds funds.
\<close>

definition blank_request :: AidRequest where
  "blank_request =
     \<lparr> requester = 5, AidRequest.aidType = 0, AidRequest.urgency = 1,
       AidRequest.lat = 0, AidRequest.lng = 0, AidRequest.status = Submitted,
       galileoProofHash = ZeroHash, fdcEventId = ZeroHash, fdcProofHash = ZeroHash,
       AidRequest.consensusHash = ZeroHash, AidRequest.recommendedAid = 0,
       AidRequest.fulfillerType = 0, AidRequest.estimatedCostUSD = 0, fulfiller = 0,
       escrowAmount = 0, deliveryProofHash = ZeroHash, deliveryLat = 0, deliveryLng = 0,
       deliveryVerificationHash = ZeroHash \<rparr>"

definition sample_pool :: FundPool where
  "sample_pool =
     \<lparr> aidChainContract = 7, totalDeposited = 5000000000, totalEscrowed = 0,
       totalPaidOut = 0, availableBalance = 5000000000, requestEscrow = (\<lambda>rid. 0) \<rparr>"

definition chain_with :: "AidRequest \<Rightarrow> FundPool \<Rightarrow> AidChain" where
  "chain_with r pool =
     \<lparr> this = 7, owner = 9, oracleOperator = 1, fundPool = pool, nextRequestId = 1,
       aidRequests = (\<lambda>rid. r), approvedFulfillers = {ZIPLINE_WALLET, AUTHORITY_WALLET},
       approvedPanelOperators = {1} \<rparr>"

definition backend_with :: "AidChain \<Rightarrow> rpc_fault option list \<Rightarrow> backend" where
  "backend_with c schedule =
     \<lparr> chain = c, contractConfigured = True, oracleSigner = Some 1,
       rpcSchedule = schedule, rpcCalls = 0, txAttempts = 0 \<rparr>"

definition orchestrator_with :: "backend \<Rightarrow> orchestrator" where
  "orchestrator_with b = \<lparr> activePipelines = Map.empty, ledger = b, emitted = [] \<rparr>"

definition submitted_backend :: backend where
  "submitted_backend = backend_with (chain_with blank_request sample_pool) []"


text \<open>An endpoint that sends the transaction and then fails while waiting for the receipt.\<close>

definition wait_fault_backend :: backend where
  "wait_fault_backend =
     backend_with (chain_with blank_request sample_pool) [None, Some NodeError]"




definition sample_params :: pipeline_params where
  "sample_params =
     \<lparr> pipeline_params.requestId = 0, aidType = ''medical'', urgency = ''high'',
       lat = - 17.0523, lng = 36.8714 \<rparr>"

definition env_with :: "node_result list \<Rightarrow> pipeline_env" where
  "env_with panel =
     \<lparr> galileoValid = True, galileoProof = Keccak256 11, fdcVerified = True,
       panelResults = panel, transcriptHash = Keccak256 7, dispatchSuccess = True \<rparr>"

section \<open>Properties of the consensus engine\<close>

lemma add_vote_nonempty: "add_vote k m \<noteq> []"
  by (cases m) (auto split: if_splits)

lemma foldl_add_vote_nonempty:
  "m \<noteq> [] \<or> ks \<noteq> [] \<Longrightarrow> foldl (\<lambda>votes k. add_vote k votes) m ks \<noteq> []"
  by (induction ks arbitrary: m) (auto simp: add_vote_nonempty)

lemma count_votes_nonempty: "ks \<noteq> [] \<Longrightarrow> count_votes ks \<noteq> []"
  unfolding count_votes_def by (rule foldl_add_vote_nonempty) simp

lemma majority_vote_returns: "ks \<noteq> [] \<Longrightarrow> \<exists>k. majority_vote ks = Inr k"
proof -
  assume "ks \<noteq> []"
  then have "sort_key (\<lambda>(k, c). - int c) (count_votes ks) \<noteq> []"
    using count_votes_nonempty by (metis length_0_conv length_sort)
  then show ?thesis
    unfolding majority_vote_def by (auto split: list.splits)
qed

lemma length_decisions_valid:
  "length (decisions (filter P (validResults rs))) = length (filter P (validResults rs))"
  unfolding decisions_def validResults_def List.map_filter_def
  by (induction rs) auto

lemma length_decisions_approvalVotes:
  "length (decisions (approvalVotes rs)) = length (approvalVotes rs)"
  unfolding approvalVotes_def by (rule length_decisions_valid)

text \<open>The engine always returns a transcript: the vote lookup never throws.\<close>

lemma runConsensus_returns: "\<exists>c. runConsensus h rs = Inr c"
proof (cases "length (validResults rs) < 3")
  case True
  then show ?thesis by (simp add: runConsensus_def)
next
  case False
  let ?votes = "decisions (approvalVotes rs)"
  show ?thesis
  proof (cases "length ?votes * 3 > length (validResults rs) * 2 \<and> length ?votes > 0")
    case gate: True
    then have ne: "?votes \<noteq> []" by auto
    obtain aid where a: "majority_vote (map decision.recommendedAid ?votes) = Inr aid"
      using majority_vote_returns [of "map decision.recommendedAid ?votes"] ne by auto
    obtain ft where f: "majority_vote (map decision.fulfillerType ?votes) = Inr ft"
      using majority_vote_returns [of "map decision.fulfillerType ?votes"] ne by auto
    show ?thesis using False gate a f by (simp add: runConsensus_def Let_def)
  next
    case nogate: False
    then show ?thesis using False by (auto simp add: runConsensus_def Let_def)
  qed
qed

lemma runConsensus_counts:
  assumes "runConsensus h rs = Inr c"
  shows "validCount c = length (validResults rs)"
    and "nodeCount c = length rs"
    and "3 \<le> length (validResults rs) \<Longrightarrow> approvalCount c = length (approvalVotes rs)"
    and "consensus.approved c =
           (3 \<le> length (validResults rs)
            \<and> 2 * length (validResults rs) < 3 * length (approvalVotes rs))"
  using assms
  by (auto simp: runConsensus_def Let_def length_decisions_approvalVotes
           split: if_splits sum.splits)

lemma runConsensus_panel_even:
  "runConsensus (Keccak256 7) panel_even =
     Inr \<lparr> consensus.approved = True, reason = ApprovedBy 4 4 90, nodeCount = 4,
           validCount = 4, approvalCount = 4, recommendedAid = Some 0,
           fulfillerType = Some 0, estimatedCostUSD = Some 300,
           avgConfidence = Some 90, results = panel_even, consensusHash = Keccak256 7 \<rparr>"
  by (simp add: runConsensus_def panel_even_def panel_node_def validResults_def
        approvalVotes_def decisions_def List.map_filter_def majority_vote_def count_votes_def
        median_cost_def round_div_def)

lemma validResults_panel_two_valid: "length (validResults panel_two_valid) = 2"
  by (simp add: panel_two_valid_def panel_node_def failed_node_def validResults_def)

text \<open>
  C1.  Every transcript that \<open>runConsensus\<close> marks approved has
  \<open>3 * approvalCount > 2 * validCount\<close> and \<open>validCount \<ge> 3\<close>, where \<open>validCount\<close> counts the
  nodes with a parseable verdict and \<open>approvalCount\<close> the approving ones among them; when
  fewer than 3 nodes return a parseable verdict, the engine returns a transcript that is
  marked unapproved, for insufficient responses; and the engine returns a transcript for
  every panel.
\<close>

theorem runConsensus_quorum_supermajority:
  "(\<forall>c. runConsensus h rs = Inr c \<longrightarrow> consensus.approved c \<longrightarrow>
        3 * approvalCount c > 2 * validCount c \<and> 3 \<le> validCount c
        \<and> validCount c = length (validResults rs)
        \<and> approvalCount c = length (approvalVotes rs))
   \<and> (length (validResults rs) < 3 \<longrightarrow>
        (\<exists>c. runConsensus h rs = Inr c \<and> \<not> consensus.approved c
             \<and> reason c = InsufficientResponses))
   \<and> (\<exists>c. runConsensus h rs = Inr c)"
proof (intro conjI allI impI)
  fix c
  assume r: "runConsensus h rs = Inr c" and a: "consensus.approved c"
  from runConsensus_counts(4) [OF r] a
  have v: "3 \<le> length (validResults rs)"
    and s: "2 * length (validResults rs) < 3 * length (approvalVotes rs)" by auto
  show "validCount c = length (validResults rs)" by (rule runConsensus_counts(1) [OF r])
  show "approvalCount c = length (approvalVotes rs)" by (rule runConsensus_counts(3) [OF r v])
  show "3 \<le> validCount c" using v runConsensus_counts(1) [OF r] by simp
  show "2 * validCount c < 3 * approvalCount c"
    using s runConsensus_counts(1) [OF r] runConsensus_counts(3) [OF r v] by simp
next
  assume "length (validResults rs) < 3"
  then show "\<exists>c. runConsensus h rs = Inr c \<and> \<not> consensus.approved c
                 \<and> reason c = InsufficientResponses"
    by (simp add: runConsensus_def)
next
  show "\<exists>c. runConsensus h rs = Inr c" by (rule runConsensus_returns)
qed

theorem runConsensus_quorum_supermajority_witness:
  "approved_of (runConsensus (Keccak256 7) panel_even)
   \<and> length (validResults panel_two_valid) < 3
   \<and> \<not> approved_of (runConsensus (Keccak256 7) panel_two_valid)"
proof -
  have a: "approved_of (runConsensus (Keccak256 7) panel_even)"
    by (simp add: runConsensus_panel_even approved_of_def)
  have b: "length (validResults panel_two_valid) < 3"
    by (simp add: validResults_panel_two_valid)
  from runConsensus_quorum_supermajority [of "Keccak256 7" panel_two_valid] b
  obtain c where "runConsensus (Keccak256 7) panel_two_valid = Inr c"
    and "\<not> consensus.approved c" by blast
  then have "\<not> approved_of (runConsensus (Keccak256 7) panel_two_valid)"
    by (simp add: approved_of_def)
  moreover from runConsensus_quorum_supermajority [of "Keccak256 7" panel_even]
    runConsensus_panel_even
  have "3 \<le> validCount \<lparr> consensus.approved = True, reason = ApprovedBy 4 4 90, nodeCount = 4,
           validCount = 4, approvalCount = 4, recommendedAid = Some 0,
           fulfillerType = Some 0, estimatedCostUSD = Some 300,
           avgConfidence = Some 90, results = panel_even, consensusHash = Keccak256 7 \<rparr>"
    by simp
  ultimately show ?thesis using a b by simp
qed

lemma median_cost_upper: "cs \<noteq> [] \<Longrightarrow> median_cost cs = upper_median cs"
proof -
  assume ne: "cs \<noteq> []"
  let ?s = "sort cs"
  let ?n = "length ?s"
  have n: "0 < ?n" using ne by simp
  have lt: "?n div 2 < ?n" using n by simp
  have "?s ! (?n div 2 - 1) \<le> ?s ! (?n div 2)"
    by (rule sorted_nth_mono) (use lt in auto)
  moreover have "?s \<noteq> []" using n by (metis length_greater_0_conv)
  ultimately show ?thesis
    using n lt by (simp add: median_cost_def upper_median_def Let_def max_def)
qed

text \<open>
  C3 as stated fails for an even number of approving nodes: four nodes approve with costs
  100, 400, 200 and 300; the engine chooses 300, while the lower median is 200.
\<close>

theorem runConsensus_even_median_counterexample:
  "approved_of (runConsensus (Keccak256 7) panel_even)
   \<and> cost_of (runConsensus (Keccak256 7) panel_even) = Some 300
   \<and> lower_median (map decision.estimatedCostUSD (decisions (approvalVotes panel_even)))
       = Some 200"
proof -
  have "lower_median (map decision.estimatedCostUSD (decisions (approvalVotes panel_even)))
          = Some 200"
    by (simp add: lower_median_def panel_even_def panel_node_def validResults_def
          approvalVotes_def decisions_def List.map_filter_def)
  then show ?thesis
    by (simp add: runConsensus_panel_even approved_of_def cost_of_def)
qed

text \<open>
  C3, amended.  For every approved consensus the chosen cost estimate is the entry at index
  \<open>floor(n / 2)\<close> of the approving nodes' costs in ascending order: the median when their
  number \<open>n\<close> is odd, and the upper median (the larger of the two middle values) when it is
  even.
\<close>

theorem runConsensus_cost_upper_median:
  assumes "runConsensus h rs = Inr c" and "consensus.approved c"
  shows "consensus.estimatedCostUSD c
           = upper_median (map decision.estimatedCostUSD (decisions (approvalVotes rs)))
         \<and> consensus.estimatedCostUSD c
           = Some (sort (map decision.estimatedCostUSD (decisions (approvalVotes rs)))
                     ! (length (approvalVotes rs) div 2))"
proof -
  let ?votes = "decisions (approvalVotes rs)"
  from runConsensus_counts(4) [OF assms(1)] assms(2)
  have v: "3 \<le> length (validResults rs)"
    and s: "2 * length (validResults rs) < 3 * length (approvalVotes rs)" by auto
  then have "0 < length (approvalVotes rs)" by linarith
  then have pos: "0 < length ?votes" by (simp only: length_decisions_approvalVotes)
  then have ne: "map decision.estimatedCostUSD ?votes \<noteq> []" by auto
  have gate: "length ?votes * 3 > length (validResults rs) * 2"
    using s by (simp add: length_decisions_approvalVotes)
  have m: "consensus.estimatedCostUSD c = median_cost (map decision.estimatedCostUSD ?votes)"
    using assms(1) v gate pos
    by (auto simp: runConsensus_def Let_def split: sum.splits)
  have "median_cost (map decision.estimatedCostUSD ?votes)
          = Some (sort (map decision.estimatedCostUSD ?votes) ! (length (approvalVotes rs) div 2))"
    using pos by (simp add: median_cost_def Let_def length_decisions_approvalVotes)
  with m median_cost_upper [OF ne] show ?thesis by simp
qed

theorem runConsensus_cost_upper_median_witness:
  "cost_of (runConsensus (Keccak256 7) panel_even)
     = upper_median (map decision.estimatedCostUSD (decisions (approvalVotes panel_even)))"
proof -
  have "consensus.approved \<lparr> consensus.approved = True, reason = ApprovedBy 4 4 90,
           nodeCount = 4, validCount = 4, approvalCount = 4, recommendedAid = Some 0,
           fulfillerType = Some 0, estimatedCostUSD = Some 300,
           avgConfidence = Some 90, results = panel_even, consensusHash = Keccak256 7 \<rparr>"
    by simp
  from runConsensus_cost_upper_median [OF runConsensus_panel_even this]
  show ?thesis by (simp add: cost_of_def runConsensus_panel_even)
qed

section \<open>Properties of delivery verification\<close>

lemma strict_eq_JStr: "strict_eq h (JStr z) = (h = JStr z)"
  by (cases h) auto

lemma strict_eq_JNum: "strict_eq h (JNum z) = (h = JNum z)"
  by (cases h) auto

lemma haversine_same_point: "haversineDistance la lo la lo = Some 0"
  by (simp add: haversineDistance_def haversine_a_def atan2_def)

text \<open>
  C6.  With delivery type \<open>drone\<close>, \<open>verifyDelivery\<close> marks a proof verified if and only
  if the drop coordinates are numbers whose haversine distance from the target is under 30
  metres, and the image digest is present (a truthy value) and is not the zero digest.
\<close>

theorem verifyDelivery_drone_iff:
  "verified (verifyDelivery attHash ''drone'' p targetLat targetLng) \<longleftrightarrow>
     (\<exists>la lo d. dropLat p = Some la \<and> dropLng p = Some lo
        \<and> haversineDistance targetLat targetLng la lo = Some d \<and> d < 30)
     \<and> truthy (cameraImageHash p) \<and> cameraImageHash p \<noteq> JStr ZeroHash_hex"
  by (auto simp: verifyDelivery_def verifyDroneDelivery_def drop_distance_def cameraValid_def
        strict_eq_JStr Let_def split: option.splits)

theorem verifyDelivery_drone_iff_witness:
  "verified (verifyDelivery (Keccak256 7) ''drone'' drone_proof_on_target 0 0)
   \<and> \<not> verified (verifyDelivery (Keccak256 7) ''drone''
          (drone_proof_on_target \<lparr> cameraImageHash := JStr ZeroHash_hex \<rparr>) 0 0)"
proof -
  have d: "haversineDistance 0 0 0 0 = Some 0" by (rule haversine_same_point)
  have z: "JStr ''0xabc123'' \<noteq> JStr ZeroHash_hex" by code_simp
  have "verified (verifyDelivery (Keccak256 7) ''drone'' drone_proof_on_target 0 0)"
    unfolding verifyDelivery_drone_iff [of "Keccak256 7" drone_proof_on_target 0 0]
    using d z by (simp add: drone_proof_on_target_def)
  moreover have "\<not> verified (verifyDelivery (Keccak256 7) ''drone''
          (drone_proof_on_target \<lparr> cameraImageHash := JStr ZeroHash_hex \<rparr>) 0 0)"
    unfolding verifyDelivery_drone_iff
      [of "Keccak256 7" "drone_proof_on_target \<lparr> cameraImageHash := JStr ZeroHash_hex \<rparr>" 0 0]
    by simp
  ultimately show ?thesis by simp
qed

section \<open>Properties of the WebSocket filter\<close>

text \<open>
  C9 fails for request id 0: a client that subscribed to request 0 is sent the events of
  request 1, because the broadcast tests the truthiness of \<open>subscribedRequestId\<close>.
\<close>

theorem subscribe_zero_receives_other_request:
  "broadcast (event_for 1) [ws_on_message (subscribe_msg 0) ws_connect] =
     [\<lparr> readyState = 1, subscribedRequestId = JNum 0,
        sent = [Connected, Subscribed (JNum 0), PipelineEventMsg (event_for 1)] \<rparr>]"
  by (simp add: broadcast_def ws_on_message_def subscribe_msg_def ws_connect_def ws_wants_def
        event_for_def)

text \<open>
  A client that never subscribed is sent every event, and for a positive request id the
  filter does select that request's events only.
\<close>

lemma unsubscribed_receives_all: "ws_wants ws_connect ev"
  by (simp add: ws_wants_def ws_connect_def)


lemma subscribe_positive_filters:
  "0 < n \<Longrightarrow> ws_wants (ws_on_message (subscribe_msg n) ws_connect) ev
     \<longleftrightarrow> pipeline_event.requestId ev = n"
  by (auto simp: ws_on_message_def subscribe_msg_def ws_connect_def ws_wants_def)

section \<open>Properties of the ledger adapter\<close>









text \<open>
  When the wait for the receipt fails, the caller is told of a failure although the
  transaction was sent: the request is verified on the chain.
\<close>

lemma wait_fault_after_send:
  "fst (submitVerification 0 (Keccak256 11) ZeroHash ZeroHash wait_fault_backend)
     = Inl (Transient NodeError)
   \<and> AidRequest.status (aidRequests (chain (snd
        (submitVerification 0 (Keccak256 11) ZeroHash ZeroHash wait_fault_backend))) 0) = Verified"
  by (simp add: submitVerification_def sendTransaction_def wait_fault_backend_def backend_with_def
        chain_with_def blank_request_def next_fault_def verifyRequest_def Let_def)

section \<open>Properties of the pipeline orchestrator\<close>

lemmas panel_eval_defs = runConsensus_def panel_node_def failed_node_def validResults_def
  approvalVotes_def decisions_def List.map_filter_def majority_vote_def count_votes_def
  median_cost_def round_div_def

lemma runConsensus_panel_one_failed:
  "runConsensus (Keccak256 7) panel_one_failed =
     Inr \<lparr> consensus.approved = True, reason = ApprovedBy 3 4 90, nodeCount = 5,
           validCount = 4, approvalCount = 3, recommendedAid = Some 0,
           fulfillerType = Some 0, estimatedCostUSD = Some 150,
           avgConfidence = Some 90, results = panel_one_failed, consensusHash = Keccak256 7 \<rparr>"
  by (simp add: panel_eval_defs panel_one_failed_def)


lemmas stage_defs = pipeline_try_def and_then_def step_def throw_def yield_def
  stage_request_def stage_gps_verify_def
  stage_event_verify_def stage_llm_panel_def stage_contract_def stage_fulfillment_def
  ledger_write_def emit_def emit_error_def update_state_def enter_stage_def complete_stage_def
  failed_stage_of_def

lemmas adapter_defs = submitVerification_def submitConsensusOnChain_def
  assignFulfillerOnChain_def verifyDeliveryOnChain_def releasePayoutOnChain_def
  sendTransaction_def getRequest_def next_fault_def uint8_arg_def formatRequest_def

lemmas contract_defs = verifyRequest_def submitConsensus_def supermajority_check_def
  checked_mul_uint8_def assignFulfiller_def escrowForRequest_def verifyDelivery_sol_def
  releasePayout_def releaseTo_def getRequest_sol_def

lemmas sample_defs = submitted_backend_def backend_with_def chain_with_def blank_request_def
  sample_pool_def orchestrator_with_def sample_params_def env_with_def

text \<open>
  When every node returns a verdict, the valid count is the node count and the ledger's
  check gives the engine's verdict (for panels small enough for \<open>uint8\<close> arithmetic).
\<close>

lemma ledger_check_agrees_without_failures:
  assumes "runConsensus h rs = Inr c" and "validResults rs = rs"
    and "3 \<le> length rs" and "length rs \<le> 85"
  shows "supermajority_check True (nodeCount c) (approvalCount c) = Inr (consensus.approved c)"
proof -
  have v: "3 \<le> length (validResults rs)" using assms(2,3) by simp
  have n: "nodeCount c = length rs" by (rule runConsensus_counts(2) [OF assms(1)])
  have a: "approvalCount c = length (approvalVotes rs)"
    by (rule runConsensus_counts(3) [OF assms(1) v])
  have "length (approvalVotes rs) \<le> length rs"
    unfolding approvalVotes_def assms(2) by (rule length_filter_le)
  with assms(4) have small: "length (approvalVotes rs) * 3 < 256" "length rs * 2 < 256" by simp_all
  have "consensus.approved c = (2 * length rs < 3 * length (approvalVotes rs))"
    using runConsensus_counts(4) [OF assms(1)] v assms(2) by simp
  then show ?thesis
    using small by (auto simp: supermajority_check_def checked_mul_uint8_def n a)
qed

text \<open>
  C2 fails when a node fails.  With five nodes of which one fails and three of the four
  valid ones approve, the engine approves (9 > 8); the orchestrator submits the total node
  count 5 with approval count 3, the ledger's check 9 > 10 fails and the write reverts, so
  the pipeline fails at stage 4.
\<close>

theorem approved_consensus_reverts_on_ledger:
  "approved_of (runConsensus (Keccak256 7) panel_one_failed)
   \<and> fst (executePipeline sample_params (env_with panel_one_failed)
            (orchestrator_with submitted_backend))
     = \<lparr> success = False,
         failure = Some (Thrown (CallException (Revert ''AidChain: supermajority not met''))),
         failedStage = Some (StageNum 4) \<rparr>"
  by (simp add: approved_of_def runConsensus_panel_one_failed executePipeline_def stage_defs
        adapter_defs contract_defs sample_defs Let_def)



lemma same_but_refl [simp]: "same_but rid orch orch"
  by (simp add: same_but_def)

lemma same_but_trans: "same_but rid a b \<Longrightarrow> same_but rid b c \<Longrightarrow> same_but rid a c"
  by (simp add: same_but_def)

lemma same_but_update_state [simp]: "same_but rid orch (update_state rid f orch)"
  by (simp add: same_but_def update_state_def split: option.splits)

lemma same_but_emit [simp]: "same_but rid a (emit rid s t b) = same_but rid a b"
  by (simp add: same_but_def emit_def)

lemma same_but_emit_error [simp]: "same_but rid a (emit_error rid s b) = same_but rid a b"
  by (simp add: same_but_def emit_error_def)

lemma same_but_ledger [simp]: "same_but rid a (b \<lparr> ledger := l \<rparr>) = same_but rid a b"
  by (simp add: same_but_def)

lemma same_but_enter_stage [simp]: "same_but rid orch (enter_stage rid n orch)"
  by (simp add: enter_stage_def)

lemma same_but_complete_stage [simp]: "same_but rid orch (complete_stage rid k orch)"
  by (simp add: complete_stage_def)

lemma same_but_then_complete [simp]:
  "same_but rid a b \<Longrightarrow> same_but rid a (complete_stage rid k b)"
  using same_but_trans [OF _ same_but_complete_stage] by blast
















lemma activePipelines_emit [simp]: "activePipelines (emit rid s t orch) = activePipelines orch"
  by (simp add: emit_def)

lemma activePipelines_emit_error [simp]:
  "activePipelines (emit_error rid s orch) = activePipelines orch"
  by (simp add: emit_error_def)

lemma ledger_emit [simp]: "ledger (emit rid s t orch) = ledger orch"
  by (simp add: emit_def)

lemma ledger_emit_error [simp]: "ledger (emit_error rid s orch) = ledger orch"
  by (simp add: emit_error_def)










lemma quiet_chain [simp]: "quiet (b \<lparr> chain := c \<rparr>) = quiet b"
  by (simp add: quiet_def)

lemma quiet_txAttempts [simp]: "quiet (b \<lparr> txAttempts := n \<rparr>) = quiet b"
  by (simp add: quiet_def)






section \<open>Properties of the event attestation\<close>

lemma neg_half_angle: "(b - a) * pi / 180 / 2 = - ((a - b) * pi / 180 / 2)" for a b :: real
  by (simp add: field_simps)

lemma sin_half_diff_sq:
  "(sin ((b - a) * pi / 180 / 2))\<^sup>2 = (sin ((a - b) * pi / 180 / 2))\<^sup>2"
  by (simp only: neg_half_angle [of b a] sin_minus power2_minus)

lemma haversine_a_sym: "haversine_a la1 lo1 la2 lo2 = haversine_a la2 lo2 la1 lo1"
proof -
  have "cos (la1 * pi / 180) * cos (la2 * pi / 180) = cos (la2 * pi / 180) * cos (la1 * pi / 180)"
    by (rule mult.commute)
  then show ?thesis
    unfolding haversine_a_def Let_def
    by (simp only: sin_half_diff_sq [of la2 la1] sin_half_diff_sq [of lo2 lo1])
qed

lemma haversineDistance_sym: "haversineDistance la1 lo1 la2 lo2 = haversineDistance la2 lo2 la1 lo1"
  unfolding haversineDistance_def Let_def by (simp only: haversine_a_sym [of la1 lo1 la2 lo2])

lemma same_event_sym: "same_event x y = same_event y x"
  unfolding same_event_def
  by (simp only: haversineDistance_sym [of "event.lat x" "event.lng x" "event.lat y" "event.lng y"] eq_commute [of "type' x" "type' y"])

lemma same_event_sources [simp]:
  "same_event (x \<lparr> sources := s \<rparr>) y = same_event x y"
  "same_event x (y \<lparr> sources := s \<rparr>) = same_event x y"
  by (simp_all add: same_event_def)

lemma set_own_entries [simp]: "set (own_entries g) = set g"
  by (auto simp: own_entries_def)

lemma distinct_own_entries:
  "distinct (map fst g) \<Longrightarrow> distinct (map fst (own_entries g))"
proof -
  assume d: "distinct (map fst g)"
  then have "distinct g" and inj: "inj_on fst (set g)" by (simp_all add: distinct_map)
  then have "distinct (own_entries g)" by (auto simp: own_entries_def)
  with inj show ?thesis by (simp add: distinct_map)
qed

lemma find_existing_Some:
  "find_existing e entries = Some k \<Longrightarrow> \<exists>x. (k, x) \<in> set entries \<and> same_event x e"
proof -
  assume "find_existing e entries = Some k"
  then obtain kv where f: "List.find (\<lambda>kv. same_event (snd kv) e) entries = Some kv"
    and k: "k = fst kv" by (auto simp: find_existing_def)
  from f have "kv \<in> set entries" and "same_event (snd kv) e"
    by (auto simp: find_Some_iff)
  with k show ?thesis by (intro exI [of _ "snd kv"]) simp
qed

lemma find_existing_None:
  "find_existing e entries = None \<Longrightarrow> (k, x) \<in> set entries \<Longrightarrow> \<not> same_event x e"
  by (auto simp: find_existing_def find_None_iff)

lemma separated_map:
  assumes s: "separated g"
    and key: "\<And>kv. fst (h kv) = fst kv"
    and same: "\<And>kx ky. kx \<in> set g \<Longrightarrow> ky \<in> set g \<Longrightarrow> fst kx \<noteq> fst ky
                 \<Longrightarrow> \<not> same_event (snd (h kx)) (snd (h ky))"
  shows "separated (map h g)"
  unfolding separated_def
proof (intro conjI ballI impI)
  have "map fst (map h g) = map fst g" by (simp add: key comp_def)
  moreover from s have "distinct (map fst g)" by (simp add: separated_def)
  ultimately show "distinct (map fst (map h g))" by (simp only:)
next
  fix kx ky
  assume "kx \<in> set (map h g)" and "ky \<in> set (map h g)" and ne: "fst kx \<noteq> fst ky"
  then obtain kx0 ky0 where x: "kx0 \<in> set g" "kx = h kx0" and y: "ky0 \<in> set g" "ky = h ky0"
    by (auto simp: image_iff)
  from ne x(2) y(2) have ne0: "fst kx0 \<noteq> fst ky0" by (simp add: key)
  show "\<not> same_event (snd kx) (snd ky)"
    unfolding x(2) y(2) by (rule same [OF x(1) y(1) ne0])
qed

lemma separated_merge_into: "separated g \<Longrightarrow> separated (merge_into k e g)"
  unfolding merge_into_def
proof (rule separated_map)
  fix kx ky
  assume "separated g" and "kx \<in> set g" and "ky \<in> set g" and "fst kx \<noteq> fst ky"
  then have "\<not> same_event (snd kx) (snd ky)" by (simp add: separated_def)
  then show "\<not> same_event
        (snd (if fst kx = k
              then (fst kx, (snd kx) \<lparr> sources := union_sources (sources (snd kx)) (sources e) \<rparr>)
              else kx))
        (snd (if fst ky = k
              then (fst ky, (snd ky) \<lparr> sources := union_sources (sources (snd ky)) (sources e) \<rparr>)
              else ky))"
    by simp
qed simp_all

lemma separated_assign_key:
  assumes s: "separated g" and far: "\<forall>kx \<in> set g. \<not> same_event (snd kx) e"
  shows "separated (assign_key k e g)"
proof (cases "k \<in> fst ` set g")
  case False
  have far': "\<forall>ky \<in> set g. \<not> same_event e (snd ky)"
  proof
    fix ky assume "ky \<in> set g"
    with far have "\<not> same_event (snd ky) e" by simp
    then show "\<not> same_event e (snd ky)" using same_event_sym [of e "snd ky"] by blast
  qed
  have "separated (g @ [(k, e)])"
    unfolding separated_def
  proof (intro conjI ballI impI)
    show "distinct (map fst (g @ [(k, e)]))" using s False by (simp add: separated_def)
  next
    fix kx ky
    assume x: "kx \<in> set (g @ [(k, e)])" and y: "ky \<in> set (g @ [(k, e)])"
      and ne: "fst kx \<noteq> fst ky"
    show "\<not> same_event (snd kx) (snd ky)"
    proof (cases "kx = (k, e)")
      case True
      with ne y have "ky \<in> set g" by auto
      with far' True show ?thesis by simp
    next
      case kx: False
      with x have xg: "kx \<in> set g" by simp
      show ?thesis
      proof (cases "ky = (k, e)")
        case True
        with far xg show ?thesis by simp
      next
        case False
        with y have "ky \<in> set g" by simp
        with s xg ne show ?thesis by (simp add: separated_def)
      qed
    qed
  qed
  with False show ?thesis by (simp add: assign_key_def)
next
  case True
  have far': "\<And>ky. ky \<in> set g \<Longrightarrow> \<not> same_event e (snd ky)"
  proof -
    fix ky assume "ky \<in> set g"
    with far have "\<not> same_event (snd ky) e" by simp
    then show "\<not> same_event e (snd ky)" using same_event_sym [of e "snd ky"] by blast
  qed
  have "separated (map (\<lambda>kv. if fst kv = k then (k, e) else kv) g)"
  proof (rule separated_map [OF s])
    fix kx ky
    assume x: "kx \<in> set g" and y: "ky \<in> set g" and ne: "fst kx \<noteq> fst ky"
    from s x y ne have old: "\<not> same_event (snd kx) (snd ky)" by (simp add: separated_def)
    from far x have fx: "\<not> same_event (snd kx) e" by simp
    from far' y have fy: "\<not> same_event e (snd ky)" by simp
    show "\<not> same_event (snd (if fst kx = k then (k, e) else kx))
                         (snd (if fst ky = k then (k, e) else ky))"
      using old fx fy ne by auto
  qed simp
  with True show ?thesis by (simp add: assign_key_def)
qed

lemma separated_dedup_step: "separated g \<Longrightarrow> separated (dedup_step g e)"
proof (cases "find_existing e (own_entries g)")
  case None
  assume s: "separated g"
  have "\<forall>kx \<in> set g. \<not> same_event (snd kx) e"
  proof
    fix kx assume "kx \<in> set g"
    then have "(fst kx, snd kx) \<in> set (own_entries g)" by simp
    from find_existing_None [OF None this] show "\<not> same_event (snd kx) e" .
  qed
  with s None show ?thesis by (simp add: dedup_step_def separated_assign_key)
next
  case (Some k)
  assume "separated g"
  with Some show ?thesis by (simp add: dedup_step_def separated_merge_into)
qed

lemma separated_foldl: "separated g \<Longrightarrow> separated (foldl dedup_step g events)"
  by (induction events arbitrary: g) (simp_all add: separated_dedup_step)

lemma separated_nth:
  assumes "separated g" and "i < length (own_entries g)" and "j < length (own_entries g)"
    and "i \<noteq> j"
  shows "\<not> same_event (snd (own_entries g ! i)) (snd (own_entries g ! j))"
proof -
  have d: "distinct (map fst (own_entries g))"
    using assms(1) by (simp add: separated_def distinct_own_entries)
  have "fst (own_entries g ! i) \<noteq> fst (own_entries g ! j)"
    using d assms(2-4) by (simp add: distinct_conv_nth)
  moreover have "own_entries g ! i \<in> set g" "own_entries g ! j \<in> set g"
    using assms(2,3) by (metis nth_mem set_own_entries)+
  ultimately show ?thesis using assms(1) by (auto simp: separated_def)
qed

lemma set_union_sources: "set (union_sources a b) = set a \<union> set b"
  by (auto simp: union_sources_def)

lemma distinct_union_sources: "distinct (union_sources a b)"
  by (simp add: union_sources_def)

text \<open>
  C5.  In the output of \<open>deduplicateEvents\<close>, for every input list, no two distinct
  surviving events have the same type with centres whose haversine distance is under
  50 km; and a merge replaces the sources of the surviving entry by a list whose set is the
  union of its sources and the sources of the merged event.
\<close>

theorem deduplicateEvents_separated:
  "(\<forall>i < length (deduplicateEvents events). \<forall>j < length (deduplicateEvents events).
      i \<noteq> j \<longrightarrow>
      \<not> (type' (deduplicateEvents events ! i) = type' (deduplicateEvents events ! j)
         \<and> (\<exists>d. haversineDistance (event.lat (deduplicateEvents events ! i))
                   (event.lng (deduplicateEvents events ! i))
                   (event.lat (deduplicateEvents events ! j))
                   (event.lng (deduplicateEvents events ! j)) = Some d
                \<and> d / 1000 < 50)))
   \<and> (\<forall>g e k x. distinct (map fst g) \<and> find_existing e (own_entries g) = Some k
         \<and> (k, x) \<in> set g \<longrightarrow>
         (\<exists>merged. (k, x \<lparr> sources := merged \<rparr>) \<in> set (dedup_step g e)
            \<and> set merged = set (sources x) \<union> set (sources e)))"
proof (intro conjI allI impI)
  let ?g = "foldl dedup_step [] events"
  fix i j
  assume i: "i < length (deduplicateEvents events)" and j: "j < length (deduplicateEvents events)"
    and ne: "i \<noteq> j"
  have s: "separated ?g" by (rule separated_foldl) (simp add: separated_def)
  from i j have i': "i < length (own_entries ?g)" and j': "j < length (own_entries ?g)"
    by (simp_all add: deduplicateEvents_def)
  from separated_nth [OF s i' j' ne]
  have "\<not> same_event (deduplicateEvents events ! i) (deduplicateEvents events ! j)"
    using i' j' by (simp add: deduplicateEvents_def)
  then show "\<not> (type' (deduplicateEvents events ! i) = type' (deduplicateEvents events ! j)
         \<and> (\<exists>d. haversineDistance (event.lat (deduplicateEvents events ! i))
                   (event.lng (deduplicateEvents events ! i))
                   (event.lat (deduplicateEvents events ! j))
                   (event.lng (deduplicateEvents events ! j)) = Some d
                \<and> d / 1000 < 50))"
    by (auto simp: same_event_def)
next
  fix g :: grouped and e k x
  assume a: "distinct (map fst g) \<and> find_existing e (own_entries g) = Some k \<and> (k, x) \<in> set g"
  let ?m = "union_sources (sources x) (sources e)"
  have "(k, x \<lparr> sources := ?m \<rparr>) \<in> set (merge_into k e g)"
    using a by (force simp: merge_into_def image_iff)
  then show "\<exists>merged. (k, x \<lparr> sources := merged \<rparr>) \<in> set (dedup_step g e)
            \<and> set merged = set (sources x) \<union> set (sources e)"
    using a by (auto simp: dedup_step_def set_union_sources intro!: exI [of _ ?m])
qed


lemma not_index_gdacs_fl: "\<not> is_array_index ''gdacs-fl-2026-001''"
  by (simp add: is_array_index_def)

lemma not_index_gdacs_eq: "\<not> is_array_index ''gdacs-eq-2026-002''"
  by (simp add: is_array_index_def)

lemma same_flood: "same_event mozambique_flood reliefweb_flood"
  by (simp add: same_event_def mozambique_flood_def reliefweb_flood_def haversine_same_point)

lemma other_type: "\<not> same_event mozambique_flood turkey_earthquake"
  by (simp add: same_event_def mozambique_flood_def turkey_earthquake_def)

lemma sample_dedup_first: "dedup_step [] mozambique_flood = [(''gdacs-fl-2026-001'', mozambique_flood)]"
  by (simp add: dedup_step_def find_existing_def own_entries_def assign_key_def mozambique_flood_def)

lemma sample_dedup_second:
  "dedup_step [(''gdacs-fl-2026-001'', mozambique_flood)] turkey_earthquake
     = [(''gdacs-fl-2026-001'', mozambique_flood), (''gdacs-eq-2026-002'', turkey_earthquake)]"
  using other_type
  by (simp add: dedup_step_def find_existing_def own_entries_def assign_key_def
        not_index_gdacs_fl) (simp add: turkey_earthquake_def)

lemma sample_dedup_third:
  "dedup_step [(''gdacs-fl-2026-001'', mozambique_flood), (''gdacs-eq-2026-002'', turkey_earthquake)]
       reliefweb_flood
     = [(''gdacs-fl-2026-001'', mozambique_flood \<lparr> sources := [''GDACS'', ''ReliefWeb''] \<rparr>),
        (''gdacs-eq-2026-002'', turkey_earthquake)]"
  using same_flood
  by (simp add: dedup_step_def find_existing_def own_entries_def merge_into_def
        not_index_gdacs_fl not_index_gdacs_eq union_sources_def)
     (simp add: mozambique_flood_def reliefweb_flood_def)

lemma deduplicateEvents_sample:
  "deduplicateEvents sample_events
     = [mozambique_flood \<lparr> sources := [''GDACS'', ''ReliefWeb''] \<rparr>, turkey_earthquake]"
  by (simp add: deduplicateEvents_def sample_events_def sample_dedup_first sample_dedup_second sample_dedup_third own_entries_def
        not_index_gdacs_fl not_index_gdacs_eq)

theorem deduplicateEvents_separated_witness:
  "deduplicateEvents sample_events
     = [mozambique_flood \<lparr> sources := [''GDACS'', ''ReliefWeb''] \<rparr>, turkey_earthquake]
   \<and> \<not> (type' (deduplicateEvents sample_events ! 0) = type' (deduplicateEvents sample_events ! 1)
         \<and> (\<exists>d. haversineDistance (event.lat (deduplicateEvents sample_events ! 0))
                   (event.lng (deduplicateEvents sample_events ! 0))
                   (event.lat (deduplicateEvents sample_events ! 1))
                   (event.lng (deduplicateEvents sample_events ! 1)) = Some d
                \<and> d / 1000 < 50))
   \<and> (\<exists>merged. (''gdacs-fl-2026-001'', mozambique_flood \<lparr> sources := merged \<rparr>)
          \<in> set (dedup_step [(''gdacs-fl-2026-001'', mozambique_flood),
                              (''gdacs-eq-2026-002'', turkey_earthquake)] reliefweb_flood)
        \<and> set merged = set (sources mozambique_flood) \<union> set (sources reliefweb_flood))"
proof -
  let ?g = "[(''gdacs-fl-2026-001'', mozambique_flood), (''gdacs-eq-2026-002'', turkey_earthquake)]"
  have len: "(0::nat) < length (deduplicateEvents sample_events)"
    "(1::nat) < length (deduplicateEvents sample_events)" "(0::nat) \<noteq> 1"
    by (simp_all add: deduplicateEvents_sample)
  have f: "find_existing reliefweb_flood (own_entries ?g) = Some ''gdacs-fl-2026-001''"
    using same_flood
    by (simp add: find_existing_def own_entries_def not_index_gdacs_fl not_index_gdacs_eq)
  have pre: "distinct (map fst ?g) \<and> find_existing reliefweb_flood (own_entries ?g)
                = Some ''gdacs-fl-2026-001''
              \<and> (''gdacs-fl-2026-001'', mozambique_flood) \<in> set ?g"
    using f by simp
  from deduplicateEvents_separated [of sample_events] len pre
  show ?thesis
    using deduplicateEvents_sample by blast
qed

lemma provider_event_sourced: "provider_event e \<Longrightarrow> provider_sourced e"
  by (auto simp: provider_event_def provider_sourced_def)

lemma provider_sourced_merge:
  "provider_sourced x \<Longrightarrow> provider_sourced e
     \<Longrightarrow> provider_sourced (x \<lparr> sources := union_sources (sources x) (sources e) \<rparr>)"
  by (auto simp: provider_sourced_def set_union_sources distinct_union_sources)

lemma sourced_dedup_step:
  assumes "\<forall>kx \<in> set g. provider_sourced (snd kx)" and "provider_sourced e"
  shows "\<forall>kx \<in> set (dedup_step g e). provider_sourced (snd kx)"
proof (cases "find_existing e (own_entries g)")
  case None
  then show ?thesis using assms by (auto simp: dedup_step_def assign_key_def split: if_splits)
next
  case (Some k)
  then show ?thesis
    using assms by (auto simp: dedup_step_def merge_into_def provider_sourced_merge split: if_splits)
qed

lemma sourced_foldl:
  "\<forall>kx \<in> set g. provider_sourced (snd kx) \<Longrightarrow> \<forall>e \<in> set events. provider_sourced e
     \<Longrightarrow> \<forall>kx \<in> set (foldl dedup_step g events). provider_sourced (snd kx)"
proof (induction events arbitrary: g)
  case Nil
  then show ?case by simp
next
  case (Cons e events)
  from Cons.prems have "\<forall>kx \<in> set (dedup_step g e). provider_sourced (snd kx)"
    by (intro sourced_dedup_step) simp_all
  with Cons.IH [of "dedup_step g e"] Cons.prems(2) show ?case by simp
qed

lemma sourced_deduplicateEvents:
  assumes "\<forall>e \<in> set events. provider_event e" and "x \<in> set (deduplicateEvents events)"
  shows "provider_sourced x"
proof -
  have "\<forall>kx \<in> set (foldl dedup_step [] events). provider_sourced (snd kx)"
    using assms(1) by (intro sourced_foldl) (simp_all add: provider_event_sourced)
  with assms(2) show ?thesis by (auto simp: deduplicateEvents_def)
qed

lemma provider_sourced_count: "provider_sourced x \<Longrightarrow> length (sources x) \<le> 3"
proof -
  assume p: "provider_sourced x"
  then have "length (sources x) = card (set (sources x))"
    by (simp add: provider_sourced_def distinct_card)
  also have "\<dots> \<le> card {''GDACS'', ''USGS'', ''ReliefWeb''}"
    using p by (intro card_mono) (simp_all add: provider_sourced_def)
  also have "\<dots> = 3" by simp
  finally show ?thesis .
qed

text \<open>
  C4.  For events as the provider parsers produce them, every event that survives
  deduplication and lies at a distance that is a number is scored
  \<open>0.5 * proximity + 0.3 * source_coverage + 0.2 * severity\<close> with
  \<open>proximity = max 0 (1 - distance / radius)\<close> and
  \<open>source_coverage = min 1 (source_count / 3)\<close>, and the severity weights are 1 for
  critical, 0.75 for severe, 0.5 for moderate and 0.25 for low.  The code divides the
  source count by 3 without a cap; a surviving event has at most the three providers as
  sources, so the cap changes nothing.
\<close>

theorem event_score_formula:
  assumes "\<forall>e \<in> set events. provider_event e"
    and "x \<in> set (deduplicateEvents events)"
    and "haversineDistance userLat userLng (event.lat x) (event.lng x) = Some metres"
  shows "event_score userLat userLng x
           = Some (spec_score (metres / 1000) (radiusKm x) (length (sources x))
                     (severityScore (severity x)))
         \<and> severityScore ''critical'' = 1 \<and> severityScore ''severe'' = 0.75
         \<and> severityScore ''moderate'' = 0.5 \<and> severityScore ''low'' = 0.25"
proof -
  from sourced_deduplicateEvents [OF assms(1,2)] have p: "provider_sourced x" .
  then have r: "radiusKm x \<noteq> 0" by (simp add: provider_sourced_def)
  from provider_sourced_count [OF p] have "real (length (sources x)) / 3 \<le> 1" by simp
  then have m: "min 1 (real (length (sources x)) / 3) = real (length (sources x)) / 3"
    by (simp add: min_def)
  have "event_score userLat userLng x
          = Some (spec_score (metres / 1000) (radiusKm x) (length (sources x))
                    (severityScore (severity x)))"
    using assms(3) r
    by (simp add: event_score_def proximityScore_def spec_score_def m)
  then show ?thesis by (simp add: severityScore_def)
qed

theorem event_score_formula_witness:
  "event_score (- 17.05) 36.87 (mozambique_flood \<lparr> sources := [''GDACS'', ''ReliefWeb''] \<rparr>)
     = Some (9 / 10)"
proof -
  let ?x = "mozambique_flood \<lparr> sources := [''GDACS'', ''ReliefWeb''] \<rparr>"
  have 1: "\<forall>e \<in> set sample_events. provider_event e"
    by (simp add: sample_events_def provider_event_def mozambique_flood_def
          turkey_earthquake_def reliefweb_flood_def)
  have 2: "?x \<in> set (deduplicateEvents sample_events)"
    by (simp add: deduplicateEvents_sample)
  have 3: "haversineDistance (- 17.05) 36.87 (event.lat ?x) (event.lng ?x) = Some 0"
    using haversine_same_point [of "- 17.05" "36.87"] by (simp add: mozambique_flood_def)
  from event_score_formula [OF 1 2 3]
  show ?thesis by (simp add: spec_score_def mozambique_flood_def severityScore_def)
qed

end
